theory Spec2Isabelle
  imports Complex_Main "HOL-Library.Word"
begin

unbundle bit_operations_syntax

section \<open>Command sequence (CommandSeq.py)\<close>

text \<open>
  A completion callback has the signature \<open>on_done(success, msg, data)\<close>. The message is a
  string or \<open>None\<close>, the data any value or \<open>None\<close>.
\<close>

type_synonym 'd result = "bool \<times> string option \<times> 'd option"

text \<open>
  An \<open>Entry\<close> is built by \<open>Entry.from_func\<close> (a function with its arguments) or by
  \<open>Entry.from_msg\<close> (a message with its handler). What the function, or the handler once
  the protocol has sent the message, does with the \<open>on_done\<close> callback it is given is the
  behaviour of the step: it is the list of the callback invocations the step makes, in
  order. A step may make none (it never completes), one, or several. The string is the
  name of the function or of the message.
\<close>

datatype 'd Entry =
    from_func string "'d result list"
  | from_msg string "'d result list"

fun completions :: "'d Entry \<Rightarrow> 'd result list" where
  "completions (from_func n rs) = rs"
| "completions (from_msg n rs) = rs"

text \<open>
  The fields \<open>msg\<close>, \<open>total\<close> and \<open>calls\<close> are those of the class. \<open>terminal\<close> is the trace
  of the invocations of \<open>self._on_done\<close>, oldest first, and \<open>started\<close> the trace of the
  entries whose \<open>run\<close> was called.
\<close>

record 'd CommandSeq =
  msg :: "string option"
  total :: nat
  calls :: "'d Entry list"
  terminal :: "'d result list"
  started :: "'d Entry list"

definition CommandSeq_init :: "string option \<Rightarrow> 'd CommandSeq" where
  "CommandSeq_init m = \<lparr>msg = m, total = 0, calls = [], terminal = [], started = []\<rparr>"

text \<open>
  \<open>add(func, ...)\<close> and \<open>add_msg(msg, handler)\<close>. The arguments are the name and the
  behaviour of the function, or of the handler of the message. An \<open>on_done\<close> among the
  keyword arguments of \<open>add\<close> is deleted: the callback a step gets is always the one
  \<open>Entry.run\<close> passes.
\<close>

definition add :: "'d CommandSeq \<Rightarrow> string \<Rightarrow> 'd result list \<Rightarrow> 'd CommandSeq" where
  "add s func rs = s\<lparr>calls := calls s @ [from_func func rs], total := total s + 1\<rparr>"

definition add_msg :: "'d CommandSeq \<Rightarrow> string \<Rightarrow> 'd result list \<Rightarrow> 'd CommandSeq" where
  "add_msg s m rs = s\<lparr>calls := calls s @ [from_msg m rs], total := total s + 1\<rparr>"

text \<open>
  A sequence is populated by calls of \<open>add\<close> and \<open>add_msg\<close> in any order: \<open>add_entry\<close> is
  the call that appends a given entry.
\<close>

fun add_entry :: "'d CommandSeq \<Rightarrow> 'd Entry \<Rightarrow> 'd CommandSeq" where
  "add_entry s (from_func func rs) = add s func rs"
| "add_entry s (from_msg m rs) = add_msg s m rs"

text \<open>
  \<open>on_done\<close> is \<open>CommandSeq.on_done\<close>, \<open>Entry_run\<close> is \<open>Entry.run\<close> with
  \<open>on_done = self.on_done\<close>, and \<open>callbacks\<close> delivers the callback invocations of the
  running step to \<open>on_done\<close> one after the other, each on the state the previous one left.
\<close>

function on_done :: "'d CommandSeq \<Rightarrow> 'd result \<Rightarrow> 'd CommandSeq"
  and Entry_run :: "'d Entry \<Rightarrow> 'd CommandSeq \<Rightarrow> 'd CommandSeq"
  and callbacks :: "'d CommandSeq \<Rightarrow> 'd result list \<Rightarrow> 'd CommandSeq"
where
  "on_done s (success, m, d) =
     (if \<not> success then s\<lparr>terminal := terminal s @ [(success, m, d)]\<rparr>
      else if calls s = [] then s\<lparr>terminal := terminal s @ [(success, msg s, d)]\<rparr>
      else Entry_run (hd (calls s)) (s\<lparr>calls := tl (calls s)\<rparr>))"
| "Entry_run (from_msg n rs) s = callbacks (s\<lparr>started := started s @ [from_msg n rs]\<rparr>) rs"
| "Entry_run (from_func n rs) s = callbacks (s\<lparr>started := started s @ [from_func n rs]\<rparr>) rs"
| "callbacks s [] = s"
| "callbacks s (r # rs) = callbacks (on_done s r) rs"
  by pat_completeness auto

lemma calls_not_longer:
  "on_done_Entry_run_callbacks_dom (Inl (s, r)) \<Longrightarrow>
     length (calls (on_done s r)) \<le> length (calls s)"
  "on_done_Entry_run_callbacks_dom (Inr (Inl (e, s))) \<Longrightarrow>
     length (calls (Entry_run e s)) \<le> length (calls s)"
  "on_done_Entry_run_callbacks_dom (Inr (Inr (s, rs))) \<Longrightarrow>
     length (calls (callbacks s rs)) \<le> length (calls s)"
proof (induction s r and e s and s rs rule: on_done_Entry_run_callbacks.pinduct)
  case (1 s success m d)
  then show ?case by (auto simp: on_done.psimps)
next
  case (2 n rs s)
  then show ?case by (simp add: Entry_run.psimps)
next
  case (3 n rs s)
  then show ?case by (simp add: Entry_run.psimps)
next
  case (4 s)
  then show ?case by (simp add: callbacks.psimps)
next
  case (5 s r rs)
  then show ?case by (simp add: callbacks.psimps)
qed

termination on_done
proof (relation "inv_image (less_than <*lex*> less_than)
         (\<lambda>x. case x of
                 Inl (s, r) \<Rightarrow> (length (calls s), 0::nat)
               | Inr (Inl (e, s)) \<Rightarrow> (length (calls s), Suc (Suc (length (completions e))))
               | Inr (Inr (s, rs)) \<Rightarrow> (length (calls s), Suc (length rs)))", goal_cases)
  case 1
  show ?case by auto
next
  case (2 s success m d)
  then show ?case by (cases "calls s") simp_all
next
  case (3 n rs s)
  show ?case by simp
next
  case (4 n rs s)
  show ?case by simp
next
  case (5 s r rs)
  show ?case by simp
next
  case (6 s r rs)
  from calls_not_longer(1)[OF 6] show ?case by (auto simp: le_less)
qed

definition run :: "'d CommandSeq \<Rightarrow> 'd CommandSeq" where
  "run s = on_done s (True, None, None)"

text \<open>
  A step invokes its completion callback exactly once when the list of its invocations has
  one element; \<open>outcome\<close> is then that invocation.
\<close>

definition once :: "'d Entry \<Rightarrow> bool" where
  "once e = (length (completions e) = 1)"

definition outcome :: "'d Entry \<Rightarrow> 'd result" where
  "outcome e = hd (completions e)"

definition succeeded :: "'d Entry \<Rightarrow> bool" where
  "succeeded e = fst (outcome e)"

section \<open>Python values\<close>

text \<open>
  Python integers are unbounded and modelled by \<open>int\<close>. A float that is only compared or
  emitted (a time, a voltage, an emitted temperature) is modelled by the real it
  approximates. Where a float is truncated to an integer, in the setpoint commands of
  the thermostat, the doubles are modelled with their rounding, their infinities and
  their NaN (section Python numbers).
\<close>

datatype py_error = IndexError | ValueError | OverflowError | ZeroDivisionError

text \<open>\<open>bytes(xs)\<close> raises \<open>ValueError\<close> unless every element is in \<open>range(256)\<close>.\<close>

definition bytes :: "int list \<Rightarrow> py_error + int list" where
  "bytes xs = (if list_all (\<lambda>x. 0 \<le> x \<and> x < 256) xs then Inr xs else Inl ValueError)"

text \<open>\<open>xs[i]\<close> for a constant index \<open>i \<ge> 0\<close> raises \<open>IndexError\<close> out of range.\<close>

definition index :: "int list \<Rightarrow> nat \<Rightarrow> py_error + int" where
  "index xs i = (if i < length xs then Inr (xs ! i) else Inl IndexError)"

text \<open>\<open>xs[a:b]\<close> for constants \<open>0 \<le> a \<le> b\<close> never raises: it is cut at the end of \<open>xs\<close>.\<close>

definition slice :: "int list \<Rightarrow> nat \<Rightarrow> nat \<Rightarrow> int list" where
  "slice xs a b = take (b - a) (drop a xs)"

text \<open>\<open>int.from_bytes(bs, byteorder='big')\<close>; of no byte it is 0.\<close>

definition from_bytes :: "int list \<Rightarrow> int" where
  "from_bytes bs = foldl (\<lambda>acc b. acc * 256 + b) 0 bs"

text \<open>\<open>int(x)\<close> of a float truncates towards zero.\<close>

definition py_int :: "real \<Rightarrow> int" where
  "py_int x = (if x < 0 then \<lceil>x\<rceil> else \<lfloor>x\<rfloor>)"

text \<open>
  The built-in \<open>round(x)\<close> rounds to the nearest integer, a tie to the even one, and
  \<open>round(x, 2)\<close> does so at the second decimal.
\<close>

definition py_round :: "real \<Rightarrow> int" where
  "py_round x =
     (let f = \<lfloor>x\<rfloor>; r = x - of_int f
      in if r < 1 / 2 then f else if 1 / 2 < r then f + 1 else if even f then f else f + 1)"

definition py_round2 :: "real \<Rightarrow> real" where
  "py_round2 x = of_int (py_round (x * 100)) / 100"

text \<open>\<open>s.split("-")[0]\<close>: the part of \<open>s\<close> before its first dash, all of \<open>s\<close> without one.\<close>

definition split_first :: "string \<Rightarrow> string" where
  "split_first s = takeWhile (\<lambda>c. c \<noteq> CHR ''-'') s"

section \<open>Python numbers\<close>

text \<open>
  A Python \<open>float\<close> is an IEEE 754 double: a finite value, an infinity or a NaN. Of the
  two zeros only one is kept: no operation used here tells them apart. \<open>ilog2 n\<close> is the
  position of the highest bit of \<open>n \<ge> 1\<close>; \<open>exponent x\<close> is the binary exponent of
  \<open>x \<noteq> 0\<close>, the \<open>e\<close> with \<open>2^e \<le> |x| < 2^(e+1)\<close>, and not less than -1022 (below, the
  doubles are subnormal and equally spaced). \<open>round_to_double x\<close> rounds \<open>x\<close> to 53
  significant bits, a tie to the even one, and \<open>double x\<close> is the result of an operation
  whose exact value is \<open>x\<close>: that rounding, or an infinity when it is out of range.
\<close>

function ilog2 :: "int \<Rightarrow> nat" where
  "ilog2 n = (if n < 2 then 0 else Suc (ilog2 (n div 2)))"
  by pat_completeness auto
termination ilog2
  by (relation "measure nat") auto

declare ilog2.simps [simp del]

definition exponent :: "real \<Rightarrow> int" where
  "exponent x =
     (let a = \<bar>x\<bar>
      in if 1 \<le> a then int (ilog2 \<lfloor>a\<rfloor>)
         else max (- 1022) (- 1 - int (ilog2 (\<lceil>1 / a\<rceil> - 1))))"

definition round_to_double :: "real \<Rightarrow> real" where
  "round_to_double x =
     (if x = 0 then 0
      else of_int (py_round (x * 2 powi (52 - exponent x))) * 2 powi (exponent x - 52))"

datatype pyfloat = Finite real | PosInf | NegInf | NaN

definition double :: "real \<Rightarrow> pyfloat" where
  "double x =
     (let r = round_to_double x
      in if 2 ^ 1024 \<le> r then PosInf else if r \<le> - (2 ^ 1024) then NegInf else Finite r)"

text \<open>The operations of the doubles. The division is used with a divisor other than 0.\<close>

fun float_mul :: "pyfloat \<Rightarrow> pyfloat \<Rightarrow> pyfloat" where
  "float_mul (Finite x) (Finite y) = double (x * y)"
| "float_mul NaN b = NaN"
| "float_mul a NaN = NaN"
| "float_mul (Finite x) PosInf = (if x = 0 then NaN else if 0 < x then PosInf else NegInf)"
| "float_mul (Finite x) NegInf = (if x = 0 then NaN else if 0 < x then NegInf else PosInf)"
| "float_mul PosInf (Finite y) = (if y = 0 then NaN else if 0 < y then PosInf else NegInf)"
| "float_mul NegInf (Finite y) = (if y = 0 then NaN else if 0 < y then NegInf else PosInf)"
| "float_mul PosInf PosInf = PosInf"
| "float_mul PosInf NegInf = NegInf"
| "float_mul NegInf PosInf = NegInf"
| "float_mul NegInf NegInf = PosInf"

fun float_div :: "pyfloat \<Rightarrow> pyfloat \<Rightarrow> pyfloat" where
  "float_div (Finite x) (Finite y) = double (x / y)"
| "float_div NaN b = NaN"
| "float_div a NaN = NaN"
| "float_div (Finite x) PosInf = Finite 0"
| "float_div (Finite x) NegInf = Finite 0"
| "float_div PosInf (Finite y) = (if 0 < y then PosInf else NegInf)"
| "float_div NegInf (Finite y) = (if 0 < y then NegInf else PosInf)"
| "float_div PosInf PosInf = NaN"
| "float_div PosInf NegInf = NaN"
| "float_div NegInf PosInf = NaN"
| "float_div NegInf NegInf = NaN"

fun float_add :: "pyfloat \<Rightarrow> pyfloat \<Rightarrow> pyfloat" where
  "float_add (Finite x) (Finite y) = double (x + y)"
| "float_add NaN b = NaN"
| "float_add a NaN = NaN"
| "float_add (Finite x) PosInf = PosInf"
| "float_add (Finite x) NegInf = NegInf"
| "float_add PosInf (Finite y) = PosInf"
| "float_add NegInf (Finite y) = NegInf"
| "float_add PosInf PosInf = PosInf"
| "float_add PosInf NegInf = NaN"
| "float_add NegInf PosInf = NaN"
| "float_add NegInf NegInf = NegInf"

fun float_lt :: "pyfloat \<Rightarrow> pyfloat \<Rightarrow> bool" where
  "float_lt (Finite x) (Finite y) = (x < y)"
| "float_lt NaN b = False"
| "float_lt a NaN = False"
| "float_lt (Finite x) PosInf = True"
| "float_lt (Finite x) NegInf = False"
| "float_lt PosInf b = False"
| "float_lt NegInf (Finite y) = True"
| "float_lt NegInf PosInf = True"
| "float_lt NegInf NegInf = False"

text \<open>
  A Python number is an \<open>int\<close> or a \<open>float\<close>. \<open>and_then\<close> runs the rest of a computation on the
  value of a step that has not raised. An \<open>int\<close> that meets a \<open>float\<close> in an operation is
  converted first, which raises \<open>OverflowError\<close> when it is out of the range of the
  doubles; the quotient of two \<open>int\<close> is the double nearest to it, or raises
  \<open>OverflowError\<close>; a division by zero raises \<open>ZeroDivisionError\<close>. A comparison of an
  \<open>int\<close> with a \<open>float\<close> is exact, and false with a NaN. \<open>int(x)\<close> raises \<open>ValueError\<close> for
  a NaN and \<open>OverflowError\<close> for an infinity.
\<close>

datatype py_num = PyInt int | PyFloat pyfloat

definition and_then :: "'e + 'a \<Rightarrow> ('a \<Rightarrow> 'e + 'b) \<Rightarrow> 'e + 'b" where
  "and_then r f = (case r of Inl e \<Rightarrow> Inl e | Inr v \<Rightarrow> f v)"

definition float_of_int :: "int \<Rightarrow> py_error + pyfloat" where
  "float_of_int n =
     (case double (of_int n) of Finite r \<Rightarrow> Inr (Finite r) | PosInf \<Rightarrow> Inl OverflowError
      | NegInf \<Rightarrow> Inl OverflowError | NaN \<Rightarrow> Inl OverflowError)"

definition float_of_int_quotient :: "int \<Rightarrow> int \<Rightarrow> py_error + pyfloat" where
  "float_of_int_quotient a b =
     (case double (of_int a / of_int b) of Finite r \<Rightarrow> Inr (Finite r) | PosInf \<Rightarrow> Inl OverflowError
      | NegInf \<Rightarrow> Inl OverflowError | NaN \<Rightarrow> Inl OverflowError)"

fun py_mul :: "py_num \<Rightarrow> py_num \<Rightarrow> py_error + py_num" where
  "py_mul (PyInt a) (PyInt b) = Inr (PyInt (a * b))"
| "py_mul (PyInt a) (PyFloat y) = and_then (float_of_int a) (\<lambda>x. Inr (PyFloat (float_mul x y)))"
| "py_mul (PyFloat x) (PyInt b) = and_then (float_of_int b) (\<lambda>y. Inr (PyFloat (float_mul x y)))"
| "py_mul (PyFloat x) (PyFloat y) = Inr (PyFloat (float_mul x y))"

fun float_truediv :: "pyfloat \<Rightarrow> pyfloat \<Rightarrow> py_error + py_num" where
  "float_truediv x (Finite y) =
     (if y = 0 then Inl ZeroDivisionError else Inr (PyFloat (float_div x (Finite y))))"
| "float_truediv x y = Inr (PyFloat (float_div x y))"

fun py_truediv :: "py_num \<Rightarrow> py_num \<Rightarrow> py_error + py_num" where
  "py_truediv (PyInt a) (PyInt b) =
     (if b = 0 then Inl ZeroDivisionError
      else and_then (float_of_int_quotient a b) (\<lambda>q. Inr (PyFloat q)))"
| "py_truediv (PyInt a) (PyFloat y) = and_then (float_of_int a) (\<lambda>x. float_truediv x y)"
| "py_truediv (PyFloat x) (PyInt b) = and_then (float_of_int b) (\<lambda>y. float_truediv x y)"
| "py_truediv (PyFloat x) (PyFloat y) = float_truediv x y"

fun py_add :: "py_num \<Rightarrow> py_num \<Rightarrow> py_error + py_num" where
  "py_add (PyInt a) (PyInt b) = Inr (PyInt (a + b))"
| "py_add (PyInt a) (PyFloat y) = and_then (float_of_int a) (\<lambda>x. Inr (PyFloat (float_add x y)))"
| "py_add (PyFloat x) (PyInt b) = and_then (float_of_int b) (\<lambda>y. Inr (PyFloat (float_add x y)))"
| "py_add (PyFloat x) (PyFloat y) = Inr (PyFloat (float_add x y))"

fun exact :: "py_num \<Rightarrow> pyfloat" where
  "exact (PyInt a) = Finite (of_int a)"
| "exact (PyFloat x) = x"

definition py_lt :: "py_num \<Rightarrow> py_num \<Rightarrow> bool" where
  "py_lt a b = float_lt (exact a) (exact b)"

definition py_gt :: "py_num \<Rightarrow> py_num \<Rightarrow> bool" where
  "py_gt a b = float_lt (exact b) (exact a)"

fun int_of :: "py_num \<Rightarrow> py_error + int" where
  "int_of (PyInt a) = Inr a"
| "int_of (PyFloat (Finite x)) = Inr (py_int x)"
| "int_of (PyFloat PosInf) = Inl OverflowError"
| "int_of (PyFloat NegInf) = Inl OverflowError"
| "int_of (PyFloat NaN) = Inl ValueError"

section \<open>Devices\<close>

subsection \<open>What the devices share\<close>

text \<open>
  Modelled from the spec: the helpers \<open>util.bit_get\<close> and \<open>util.bit_set\<close>, whose module is
  not among the sources. The spec numbers the bits of the flag byte from 0 at the low end
  (``bit 3: led_on''); \<open>bit_get\<close> reads one bit and \<open>bit_set\<close> sets or clears one bit and
  keeps the others.
\<close>

definition bit_get :: "int \<Rightarrow> nat \<Rightarrow> bool" where
  "bit_get v b = (drop_bit b v AND 1 = 1)"

definition bit_set :: "int \<Rightarrow> nat \<Rightarrow> bool \<Rightarrow> int" where
  "bit_set v b is_one = (if is_one then v OR push_bit b 1 else v AND NOT (push_bit b 1))"

text \<open>
  Modelled from the spec: a frame built by \<open>Msg.OutExtended.direct(addr, cmd1, cmd2, data)\<close>
  or received from the device, with its two command bytes and its data bytes D1..D14 (at
  the indices 0..13; none for a standard frame). The address is the device's own and is
  left out. The handler that goes with an outbound frame is a \<open>StandardCmd\<close> or an
  \<open>ExtendedCmdResponse\<close>; the string names the callback it is given.
\<close>

record Msg =
  cmd1 :: int
  cmd2 :: int
  data :: "int list"

datatype handler = StandardCmd string | ExtendedCmdResponse string

text \<open>
  Modelled from the spec: the base class of the devices with its database. \<open>db_desc\<close> is
  \<open>self.db.desc\<close>: \<open>None\<close>, or the model string of the description. \<open>db_meta\<close> is the
  metadata, a mapping from a namespace to a mapping from a key to a scalar.
  \<open>sent\<close> is the queue \<open>self.send\<close> appends to, \<open>emitted\<close> the trace of the signals
  emitted and \<open>completed\<close> the trace of the invocations of the \<open>on_done\<close> callbacks the
  methods were given.
\<close>

record ('v, 'sig) Base =
  db_desc :: "string option"
  db_meta :: "string \<rightharpoonup> (string \<rightharpoonup> 'v)"
  sent :: "(Msg \<times> handler) list"
  emitted :: "'sig list"
  completed :: "int result list"

text \<open>
  Modelled from the spec: \<open>get_meta(namespace)\<close> returns the mapping of the namespace or
  \<open>None\<close>, and \<open>set_meta(namespace, mapping)\<close> replaces the whole namespace.
\<close>

definition get_meta :: "('v, 'sig, 'z) Base_scheme \<Rightarrow> string \<Rightarrow> (string \<rightharpoonup> 'v) option" where
  "get_meta dev ns = db_meta dev ns"

definition set_meta ::
  "('v, 'sig, 'z) Base_scheme \<Rightarrow> string \<Rightarrow> (string \<rightharpoonup> 'v) \<Rightarrow> ('v, 'sig, 'z) Base_scheme" where
  "set_meta dev ns m = dev\<lparr>db_meta := (db_meta dev)(ns \<mapsto> m)\<rparr>"

definition send ::
  "Msg \<Rightarrow> handler \<Rightarrow> ('v, 'sig, 'z) Base_scheme \<Rightarrow> ('v, 'sig, 'z) Base_scheme" where
  "send m h dev = dev\<lparr>sent := sent dev @ [(m, h)]\<rparr>"

definition emit :: "'sig \<Rightarrow> ('v, 'sig, 'z) Base_scheme \<Rightarrow> ('v, 'sig, 'z) Base_scheme" where
  "emit sig dev = dev\<lparr>emitted := emitted dev @ [sig]\<rparr>"

definition call_on_done ::
  "int result \<Rightarrow> ('v, 'sig, 'z) Base_scheme \<Rightarrow> ('v, 'sig, 'z) Base_scheme" where
  "call_on_done r dev = dev\<lparr>completed := completed dev @ [r]\<rparr>"

text \<open>
  The test \<open>self.db.desc is not None and self.db.desc.model.split("-")[0] == p\<close>.
\<close>

definition model_is :: "string \<Rightarrow> ('v, 'sig, 'z) Base_scheme \<Rightarrow> bool" where
  "model_is p dev = (case db_desc dev of None \<Rightarrow> False | Some model \<Rightarrow> split_first model = p)"

text \<open>The value stored under a key of a namespace, if there is one.\<close>

definition meta_value :: "('v, 'sig, 'z) Base_scheme \<Rightarrow> string \<Rightarrow> string \<Rightarrow> 'v option" where
  "meta_value dev ns k = (case get_meta dev ns of None \<Rightarrow> None | Some m \<Rightarrow> m k)"

subsection \<open>Motion sensor (device/Motion.py)\<close>

datatype Motion_signal = signal_low_battery bool | signal_dawn bool

record Motion = "(real, Motion_signal) Base" +
  led_on :: bool
  night_only :: bool
  on_only :: bool
  battery_request_time :: real

definition BATTERY_TIME :: real where
  "BATTERY_TIME = (60 * 60) * 24 * 4"

text \<open>The constructor, on a database with the description and the metadata given.\<close>

definition Motion_init :: "string option \<Rightarrow> (string \<rightharpoonup> (string \<rightharpoonup> real)) \<Rightarrow> Motion" where
  "Motion_init d m =
     \<lparr>db_desc = d, db_meta = m, sent = [], emitted = [], completed = [],
      led_on = True, night_only = False, on_only = False, battery_request_time = 0\<rparr>"

definition battery_voltage_time :: "Motion \<Rightarrow> real" where
  "battery_voltage_time dev =
     (let meta = get_meta dev ''Motion''; ret = 0
      in case meta of
           None \<Rightarrow> ret
         | Some m \<Rightarrow> (case m ''battery_voltage_time'' of None \<Rightarrow> ret | Some v \<Rightarrow> v))"

definition battery_voltage_time_set :: "real \<Rightarrow> Motion \<Rightarrow> Motion" where
  "battery_voltage_time_set val dev =
     (let meta = [''battery_voltage_time'' \<mapsto> val]; existing = get_meta dev ''Motion''
      in case existing of
           Some m \<Rightarrow> set_meta dev ''Motion'' (m ++ meta)
         | None \<Rightarrow> set_meta dev ''Motion'' meta)"

definition battery_low_voltage :: "Motion \<Rightarrow> real" where
  "battery_low_voltage dev =
     (let meta = get_meta dev ''Motion'';
          ret = (if model_is ''2842'' dev then 7.0 else 1.85)
      in case meta of
           None \<Rightarrow> ret
         | Some m \<Rightarrow> (case m ''battery_low_voltage'' of None \<Rightarrow> ret | Some v \<Rightarrow> v))"

definition battery_low_voltage_set :: "real \<Rightarrow> Motion \<Rightarrow> Motion" where
  "battery_low_voltage_set val dev =
     (let meta = [''battery_low_voltage'' \<mapsto> val]; existing = get_meta dev ''Motion''
      in case existing of
           Some m \<Rightarrow> set_meta dev ''Motion'' (m ++ meta)
         | None \<Rightarrow> set_meta dev ''Motion'' meta)"

definition set_low_battery_voltage :: "real option \<Rightarrow> Motion \<Rightarrow> Motion" where
  "set_low_battery_voltage voltage dev =
     (case voltage of
        Some v \<Rightarrow> call_on_done (True, Some ''Low voltage set.'', None) (battery_low_voltage_set v dev)
      | None \<Rightarrow> call_on_done (False, Some ''Low voltage not specified.'', None) dev)"

text \<open>
  \<open>_change_flags(flags)\<close>. The argument \<open>flags\<close> gives, for each key present in the
  dictionary, what \<open>util.input_bool(flags, key)\<close> returns for it: the boolean parsed, or
  \<open>None\<close> for an invalid value.
\<close>

definition change_flags :: "(string \<rightharpoonup> bool option) \<Rightarrow> Motion \<Rightarrow> py_error + Motion" where
  "change_flags flags dev =
     (case (case flags ''led_on'' of Some parsed \<Rightarrow> parsed | None \<Rightarrow> Some (led_on dev)) of
        None \<Rightarrow> Inr (call_on_done (False, Some ''Invalid led on.'', None) dev)
      | Some led \<Rightarrow>
     (case (case flags ''night_only'' of Some parsed \<Rightarrow> parsed | None \<Rightarrow> Some (night_only dev)) of
        None \<Rightarrow> Inr (call_on_done (False, Some ''Invalid night only.'', None) dev)
      | Some night \<Rightarrow>
     (case (case flags ''on_only'' of Some parsed \<Rightarrow> parsed | None \<Rightarrow> Some (on_only dev)) of
        None \<Rightarrow> Inr (call_on_done (False, Some ''Invalid on only.'', None) dev)
      | Some only \<Rightarrow>
     (let value0 = 0;
          value1 = bit_set value0 3 led;
          value2 = bit_set value1 2 (if night then False else True);
          value3 = bit_set value2 1 (if only then False else True)
      in case bytes ([0x00, 0x05, value3] @ replicate 11 0x00) of
           Inl e \<Rightarrow> Inl e
         | Inr d \<Rightarrow>
             Inr (send \<lparr>cmd1 = 0x2e, cmd2 = 0x00, data = d\<rparr> (StandardCmd ''Flags updated.'') dev)))))"

definition get_ext_flags :: "Motion \<Rightarrow> py_error + Motion" where
  "get_ext_flags dev =
     (case bytes (replicate 14 0x00) of
        Inl e \<Rightarrow> Inl e
      | Inr d \<Rightarrow>
          Inr (send \<lparr>cmd1 = 0x2e, cmd2 = 0x00, data = d\<rparr>
                 (ExtendedCmdResponse ''handle_ext_flags'') dev))"

text \<open>
  \<open>handle_ext_flags(msg, on_done)\<close> on the reply \<open>m\<close>, with \<open>now\<close> what \<open>time.time()\<close>
  returns. The first read of \<open>msg.data[5]\<close> is that of the log line.
\<close>

definition handle_ext_flags :: "Msg \<Rightarrow> real \<Rightarrow> Motion \<Rightarrow> py_error + Motion" where
  "handle_ext_flags m now dev =
     (case index (data m) 5 of
        Inl e \<Rightarrow> Inl e
      | Inr d6 \<Rightarrow>
     (let dev1 = dev\<lparr>led_on := bit_get d6 3, night_only := bit_get d6 2, on_only := bit_get d6 1\<rparr>
      in case index (data m) 11 of
           Inl e \<Rightarrow> Inl e
         | Inr raw \<Rightarrow>
     (let batt_volt = (if model_is ''2842'' dev1 then of_int raw / 10
                       else py_round2 (of_int raw / 72));
          dev2 = battery_voltage_time_set now dev1;
          dev3 = emit (signal_low_battery (batt_volt \<le> battery_low_voltage dev2)) dev2
      in Inr (call_on_done (True, Some ''Operation complete'', Some d6) dev3))))"

text \<open>
  \<open>_set_timeout(timeout=...)\<close>. The argument \<open>timeout\<close> is what
  \<open>util.input_integer(kwargs, 'timeout')\<close> returns: the integer given, or \<open>None\<close> for an
  invalid value.
\<close>

definition set_timeout :: "int option \<Rightarrow> Motion \<Rightarrow> py_error + Motion" where
  "set_timeout timeout dev =
     (case timeout of
        None \<Rightarrow> Inr (call_on_done (False, Some ''Invalid timeout.'', None) dev)
      | Some t0 \<Rightarrow>
     (let encoded =
            (if model_is ''2842'' dev then
               (let t1 = (if t0 < 30 then 30 else t0);
                    t2 = (if t1 > 14400 then 14400 else t1)
                in py_int (of_int t2 / 30) - 1)
             else
               (let t1 = (if t0 < 10 then 10 else t0);
                    t2 = (if t1 > 2400 then 2400 else t1)
                in py_int (of_int t2 / 10)))
      in case bytes ([0x00, 0x03, encoded] @ replicate 11 0x00) of
           Inl e \<Rightarrow> Inl e
         | Inr d \<Rightarrow>
             Inr (send \<lparr>cmd1 = 0x2e, cmd2 = 0x00, data = d\<rparr>
                    (StandardCmd ''Motion timeout updated.'') dev)))"

text \<open>
  \<open>auto_check_battery()\<close>. The method reads the clock three times; \<open>t1\<close>, \<open>t2\<close> and \<open>t3\<close>
  are what \<open>time.time()\<close> returns at the first, second and third read.
\<close>

definition auto_check_battery :: "real \<Rightarrow> real \<Rightarrow> real \<Rightarrow> Motion \<Rightarrow> py_error + Motion" where
  "auto_check_battery t1 t2 t3 dev =
     (if model_is ''2842'' dev \<or> model_is ''2844'' dev then
        (let last_checked = battery_voltage_time dev
         in if last_checked + BATTERY_TIME \<le> t1 \<and> battery_request_time dev + 300 \<le> t2
            then get_ext_flags (dev\<lparr>battery_request_time := t3\<rparr>)
            else Inr dev)
      else Inr dev)"

subsection \<open>Thermostat (device/Thermostat.py)\<close>

datatype Fan = Fan_auto | Fan_on

datatype Mode = Mode_off | Mode_auto | Mode_heat | Mode_cool | Mode_program

text \<open>
  \<open>Thermostat.Fan(v)\<close> and \<open>Thermostat.Mode(v)\<close> raise \<open>ValueError\<close> for a value that is not
  one of the enumeration; the callers catch it, so \<open>None\<close> stands for it.
\<close>

definition Fan_of :: "int \<Rightarrow> Fan option" where
  "Fan_of v = (if v = 0x00 then Some Fan_auto else if v = 0x01 then Some Fan_on else None)"

definition Mode_of :: "int \<Rightarrow> Mode option" where
  "Mode_of v =
     (if v = 0x00 then Some Mode_off
      else if v = 0x01 then Some Mode_auto
      else if v = 0x02 then Some Mode_heat
      else if v = 0x03 then Some Mode_cool
      else if v = 0x04 then Some Mode_program
      else None)"

datatype Thermostat_signal =
    signal_ambient_temp_change real
  | signal_fan_mode_change Fan
  | signal_mode_change Mode
  | signal_cool_sp_change real
  | signal_heat_sp_change real
  | signal_ambient_humid_change int
  | signal_status_change string
  | signal_hold_change bool
  | signal_energy_change bool

type_synonym Thermostat = "(int, Thermostat_signal) Base"

definition FARENHEIT :: int where
  "FARENHEIT = 0"

definition CELSIUS :: int where
  "CELSIUS = 1"

definition Thermostat_init :: "string option \<Rightarrow> (string \<rightharpoonup> (string \<rightharpoonup> int)) \<Rightarrow> Thermostat" where
  "Thermostat_init d m = \<lparr>db_desc = d, db_meta = m, sent = [], emitted = [], completed = []\<rparr>"

definition units :: "Thermostat \<Rightarrow> int" where
  "units th =
     (let meta = get_meta th ''thermostat''; ret = FARENHEIT
      in case meta of
           None \<Rightarrow> ret
         | Some m \<Rightarrow> (case m ''units'' of None \<Rightarrow> ret | Some v \<Rightarrow> v))"

definition units_set :: "int \<Rightarrow> Thermostat \<Rightarrow> Thermostat" where
  "units_set val th =
     (let meta = [''units'' \<mapsto> val]
      in if val \<in> set [FARENHEIT, CELSIUS] then set_meta th ''thermostat'' meta else th)"

definition process_status_flag :: "int \<Rightarrow> Thermostat \<Rightarrow> Thermostat" where
  "process_status_flag flag th =
     (let cooling = flag AND 1;
          heating = drop_bit 1 flag AND 1;
          energy = drop_bit 2 flag AND 1;
          th1 = units_set (drop_bit 3 flag AND 1) th;
          hold = drop_bit 4 flag AND 1;
          status = (if cooling \<noteq> 0 then ''cooling'' else if heating \<noteq> 0 then ''heating'' else ''off'');
          th2 = emit (signal_status_change status) th1;
          th3 = (if hold \<noteq> 0 then emit (signal_hold_change True) th2
                 else emit (signal_hold_change False) th2)
      in if energy \<noteq> 0 then emit (signal_energy_change True) th3
         else emit (signal_energy_change False) th3)"

definition set_fan_mode_state :: "int \<Rightarrow> Thermostat \<Rightarrow> Thermostat" where
  "set_fan_mode_state mode th =
     (case Fan_of mode of None \<Rightarrow> th | Some fan_mode \<Rightarrow> emit (signal_fan_mode_change fan_mode) th)"

text \<open>
  \<open>handle_status(msg, on_done)\<close> on the reply \<open>m\<close>; \<open>on_done_given\<close> tells whether
  \<open>on_done\<close> is a callback or \<open>None\<close>.
\<close>

definition handle_status :: "Msg \<Rightarrow> bool \<Rightarrow> Thermostat \<Rightarrow> Thermostat" where
  "handle_status m on_done_given th =
     (let status_flag = from_bytes (slice (data m) 10 11);
          th1 = process_status_flag status_flag th;
          sys_byte = from_bytes (slice (data m) 5 6);
          fan_nibble = sys_byte AND 1;
          th2 = set_fan_mode_state fan_nibble th1;
          mode_nibble = drop_bit 4 sys_byte;
          th3 = (case Mode_of mode_nibble of
                   None \<Rightarrow> th2
                 | Some HVAC_mode \<Rightarrow> emit (signal_mode_change HVAC_mode) th2);
          cool_sp = from_bytes (slice (data m) 6 7);
          th4 = emit (signal_cool_sp_change
                        (if units th3 = FARENHEIT then (of_int cool_sp - 32) * 5 / 9
                         else of_int cool_sp)) th3;
          humid = from_bytes (slice (data m) 7 8);
          th5 = emit (signal_ambient_humid_change humid) th4;
          temp_c = of_int (from_bytes (slice (data m) 8 10)) / 10;
          th6 = emit (signal_ambient_temp_change temp_c) th5;
          heat_sp = from_bytes (slice (data m) 11 12);
          th7 = emit (signal_heat_sp_change
                        (if units th6 = FARENHEIT then (of_int heat_sp - 32) * 5 / 9
                         else of_int heat_sp)) th6
      in if on_done_given then call_on_done (True, Some ''Status recevied'', None) th7 else th7)"

text \<open>
  \<open>heat_sp_command(temp_c)\<close> and, below, \<open>cool_sp_command(temp_c)\<close>, on a Python number. The
  arguments of \<open>Msg.OutExtended.direct\<close> are evaluated in their order, \<open>int(temp * 2)\<close>
  before \<open>bytes([0x00] * 14)\<close>.
\<close>

definition heat_sp_command :: "py_num \<Rightarrow> Thermostat \<Rightarrow> py_error + Thermostat" where
  "heat_sp_command temp_c th =
     and_then (if units th = FARENHEIT
          then and_then (and_then (py_mul temp_c (PyFloat (Finite 9.0)))
                      (\<lambda>a. py_truediv a (PyFloat (Finite 5.0))))
                 (\<lambda>b. py_add b (PyInt 32))
          else Inr temp_c)
       (\<lambda>temp0.
          let temp1 = (if py_lt temp0 (PyInt 0) then PyInt 0 else temp0);
              temp2 = (if py_gt temp1 (PyInt 127) then PyInt 127 else temp1)
          in and_then (and_then (py_mul temp2 (PyInt 2)) int_of)
               (\<lambda>c. and_then (bytes (replicate 14 0x00))
                  (\<lambda>d. Inr (send \<lparr>cmd1 = 0x6d, cmd2 = c, data = d\<rparr>
                               (StandardCmd ''handle_heat_sp_command'') th))))"

definition handle_heat_sp_command :: "Msg \<Rightarrow> bool \<Rightarrow> Thermostat \<Rightarrow> Thermostat" where
  "handle_heat_sp_command m on_done_given th =
     (if cmd1 m = 0x6d then
        (let heat_sp0 = of_int (cmd2 m) / 2;
             heat_sp = (if units th = FARENHEIT then (heat_sp0 - 32) * 5 / 9 else heat_sp0);
             th1 = emit (signal_heat_sp_change heat_sp) th
         in if on_done_given
            then call_on_done (True, Some ''Thermostat recevied heat setpoint command'', None) th1
            else th1)
      else if on_done_given then call_on_done (False, Some ''Wrong direct ack received'', None) th
      else th)"

definition cool_sp_command :: "py_num \<Rightarrow> Thermostat \<Rightarrow> py_error + Thermostat" where
  "cool_sp_command temp_c th =
     and_then (if units th = FARENHEIT
          then and_then (and_then (py_mul temp_c (PyInt 9))
                      (\<lambda>a. py_truediv a (PyInt 5)))
                 (\<lambda>b. py_add b (PyInt 32))
          else Inr temp_c)
       (\<lambda>temp0.
          let temp1 = (if py_lt temp0 (PyInt 0) then PyInt 0 else temp0);
              temp2 = (if py_gt temp1 (PyInt 127) then PyInt 127 else temp1)
          in and_then (and_then (py_mul temp2 (PyInt 2)) int_of)
               (\<lambda>c. and_then (bytes (replicate 14 0x00))
                  (\<lambda>d. Inr (send \<lparr>cmd1 = 0x6c, cmd2 = c, data = d\<rparr>
                               (StandardCmd ''handle_cool_sp_command'') th))))"

definition handle_cool_sp_command :: "Msg \<Rightarrow> bool \<Rightarrow> Thermostat \<Rightarrow> Thermostat" where
  "handle_cool_sp_command m on_done_given th =
     (if cmd1 m = 0x6c then
        (let cool_sp0 = of_int (cmd2 m) / 2;
             cool_sp = (if units th = FARENHEIT then (cool_sp0 - 32) * 5 / 9 else cool_sp0);
             th1 = emit (signal_cool_sp_change cool_sp) th
         in if on_done_given
            then call_on_done (True, Some ''Thermostat recevied cool setpoint command'', None) th1
            else th1)
      else if on_done_given then call_on_done (False, Some ''Wrong direct ack received'', None) th
      else th)"

text \<open>
  The lines that the two commands share, named for the proofs: the clamp
  \<open>temp = 0 if temp < 0 else temp\<close>, \<open>temp = 127 if temp > 127 else temp\<close> and the
  encoding \<open>int(temp * 2)\<close>.
\<close>

definition clamp_encode :: "py_num \<Rightarrow> py_error + int" where
  "clamp_encode temp0 =
     (let temp1 = (if py_lt temp0 (PyInt 0) then PyInt 0 else temp0);
          temp2 = (if py_gt temp1 (PyInt 127) then PyInt 127 else temp1)
      in and_then (py_mul temp2 (PyInt 2)) int_of)"

text \<open>
  The setpoint as the spec words it, to compare the commands with: \<open>spec_fahrenheit\<close>
  converts Celsius to Fahrenheit in double arithmetic, and \<open>spec_setpoint_byte\<close> clamps a
  temperature to [0, 127] and encodes it as \<open>int(temp * 2)\<close>, which a NaN has not.
\<close>

definition spec_fahrenheit :: "pyfloat \<Rightarrow> pyfloat" where
  "spec_fahrenheit a = float_add (float_div (float_mul a (Finite 9)) (Finite 5)) (Finite 32)"

definition spec_setpoint_byte :: "pyfloat \<Rightarrow> py_error + int" where
  "spec_setpoint_byte a =
     (case a of
        Finite x \<Rightarrow> Inr (if x < 0 then 0 else if 127 < x then 254
                          else py_int (round_to_double (x * 2)))
      | PosInf \<Rightarrow> Inr 254
      | NegInf \<Rightarrow> Inr 0
      | NaN \<Rightarrow> Inl ValueError)"

subsection \<open>Properties of the command sequence\<close>

lemma once_completions: "once e \<Longrightarrow> completions e = [outcome e]"
  by (cases "completions e") (simp_all add: once_def outcome_def)

lemma Entry_run_completions:
  "Entry_run e s = callbacks (s\<lparr>started := started s @ [e]\<rparr>) (completions e)"
  by (cases e) simp_all

lemma on_done_failure:
  "on_done s (False, m, d) = s\<lparr>terminal := terminal s @ [(False, m, d)]\<rparr>"
  by simp

lemma on_done_empty:
  "calls s = [] \<Longrightarrow> on_done s (True, m, d) = s\<lparr>terminal := terminal s @ [(True, msg s, d)]\<rparr>"
  by simp

lemma on_done_next:
  assumes "calls s = e # es" and "once e"
  shows "on_done s (True, m, d) =
         on_done (s\<lparr>calls := es, started := started s @ [e]\<rparr>) (outcome e)"
  using assms by (simp add: Entry_run_completions once_completions del: Entry_run.simps)

lemma on_done_closed:
  assumes "list_all once (calls s)"
  shows "on_done s (True, m, d) =
     (let k = length (takeWhile succeeded (calls s)) in
      s\<lparr>calls := drop (Suc k) (calls s),
        started := started s @ take (Suc k) (calls s),
        terminal := terminal s @
          [if k < length (calls s) then outcome (calls s ! k)
           else (True, msg s, snd (snd (last ((True, m, d) # map outcome (calls s)))))]\<rparr>)"
  using assms
proof (induction "calls s" arbitrary: s m d)
  case Nil
  then show ?case
    by (simp add: on_done_empty[OF Nil.hyps[symmetric]] Nil.hyps[symmetric])
next
  case (Cons e es)
  have cs: "calls s = e # es" using Cons.hyps(2) by simp
  have oe: "once e" and oes: "list_all once es" using Cons.prems cs by simp_all
  let ?s1 = "s\<lparr>calls := es, started := started s @ [e]\<rparr>"
  obtain b m' d' where c: "outcome e = (b, m', d')" by (cases "outcome e")
  have nxt: "on_done s (True, m, d) = on_done ?s1 (b, m', d')"
    using on_done_next[OF cs oe] c by simp
  show ?case
  proof (cases b)
    case True
    have "es = calls ?s1" by simp
    from Cons.hyps(1)[OF this, of m' d'] oes
    have "on_done ?s1 (True, m', d') =
     (let k = length (takeWhile succeeded es) in
      ?s1\<lparr>calls := drop (Suc k) es,
        started := started ?s1 @ take (Suc k) es,
        terminal := terminal ?s1 @
          [if k < length es then outcome (es ! k)
           else (True, msg ?s1, snd (snd (last ((True, m', d') # map outcome es))))]\<rparr>)"
      by (simp add: Let_def)
    then show ?thesis using nxt True c cs by (simp add: Let_def succeeded_def)
  next
    case False
    then show ?thesis
      using nxt c cs by (simp add: on_done_failure succeeded_def del: on_done.simps)
  qed
qed

lemma add_entry_append:
  "add_entry s e = s\<lparr>calls := calls s @ [e], total := total s + 1\<rparr>"
  by (cases e) (simp_all add: add_def add_msg_def)

lemma foldl_add_fields:
  "calls (foldl add_entry s es) = calls s @ es"
  "terminal (foldl add_entry s es) = terminal s"
  "started (foldl add_entry s es) = started s"
  "msg (foldl add_entry s es) = msg s"
  by (induction es arbitrary: s) (simp_all add: add_entry_append del: add_entry.simps)

lemma takeWhile_all_length:
  "length (takeWhile P xs) = length xs \<longleftrightarrow> list_all P xs"
  by (induction xs) auto

text \<open>
  The hypothesis on the steps is needed: a step that never invokes its callback leaves the
  terminal callback uninvoked, and a last step that invokes it twice has the terminal
  callback invoked twice.
\<close>

lemma step_never_completing:
  "terminal (run (foldl add_entry (CommandSeq_init m) [from_func ''a'' []])) = []"
  by (simp add: run_def CommandSeq_init_def add_def)

lemma step_completing_twice:
  "terminal (run (foldl add_entry (CommandSeq_init m)
     [from_func ''a'' [(True, None, Some (1::nat)), (True, None, Some 2)]])) =
   [(True, m, Some 1), (True, m, Some 2)]"
  by (simp add: run_def CommandSeq_init_def add_def)

text \<open>
  C1. In an execution in which every step invokes its completion callback exactly once,
  the terminal callback of the sequence is invoked exactly once, whatever the steps
  report.
\<close>

theorem CommandSeq_terminal_exactly_once:
  assumes "list_all once es"
  shows "length (terminal (run (foldl add_entry (CommandSeq_init m) es))) = 1"
proof -
  let ?s = "foldl add_entry (CommandSeq_init m) es"
  have "calls ?s = es" and "terminal ?s = []"
    by (simp_all add: foldl_add_fields CommandSeq_init_def)
  then show ?thesis
    using on_done_closed[of ?s None None] assms
    by (simp add: run_def Let_def del: on_done.simps)
qed

theorem CommandSeq_terminal_exactly_once_witness:
  "list_all once [from_func ''a'' [(True, None, Some (1::nat))],
                  from_msg ''b'' [(False, Some ''oops'', None)],
                  from_func ''c'' [(True, None, Some 3)]] \<and>
   length (terminal (run (foldl add_entry (CommandSeq_init (Some ''done''))
     [from_func ''a'' [(True, None, Some (1::nat))],
      from_msg ''b'' [(False, Some ''oops'', None)],
      from_func ''c'' [(True, None, Some 3)]]))) = 1"
  using CommandSeq_terminal_exactly_once
    [of "[from_func ''a'' [(True, None, Some (1::nat))],
          from_msg ''b'' [(False, Some ''oops'', None)],
          from_func ''c'' [(True, None, Some 3)]]" "Some ''done''"]
  by (simp add: once_def)

lemma run_closed:
  assumes "list_all once es"
  shows "run (foldl add_entry (CommandSeq_init m) es) =
     (let k = length (takeWhile succeeded es) in
      (foldl add_entry (CommandSeq_init m) es)
       \<lparr>calls := drop (Suc k) es,
        started := take (Suc k) es,
        terminal :=
          [if k < length es then outcome (es ! k)
           else (True, m, snd (snd (last ((True, None, None) # map outcome es))))]\<rparr>)"
proof -
  let ?s = "foldl add_entry (CommandSeq_init m) es"
  have "calls ?s = es" and "terminal ?s = []" and "started ?s = []" and "msg ?s = m"
    by (simp_all add: foldl_add_fields CommandSeq_init_def)
  then show ?thesis
    using on_done_closed[of ?s None None] assms
    by (simp add: run_def Let_def del: on_done.simps)
qed

lemma first_failure_prefix:
  "list_all P (take (Suc (length (takeWhile P xs))) xs) \<longleftrightarrow> list_all P xs"
  by (induction xs) auto

lemma first_failure_fails:
  "length (takeWhile P xs) < length xs \<Longrightarrow> \<not> P (xs ! length (takeWhile P xs))"
  by (rule nth_length_takeWhile)

text \<open>
  Without the condition on the steps the sequence does not stop at the first failure: a
  first step that reports a failure and then a success has the second step run after the
  failure, and the terminal callback invoked twice, first with the failure and then with
  \<open>True\<close> although a step that ran reported \<open>False\<close>.
\<close>

theorem CommandSeq_failure_then_success:
  "started (run (foldl add_entry (CommandSeq_init (Some ''all done''))
     [from_func ''step1'' [(False, Some ''oops'', None), (True, None, None)],
      from_func ''step2'' [(True, None, Some (2::nat))]]))
   = [from_func ''step1'' [(False, Some ''oops'', None), (True, None, None)],
      from_func ''step2'' [(True, None, Some 2)]]
   \<and> terminal (run (foldl add_entry (CommandSeq_init (Some ''all done''))
     [from_func ''step1'' [(False, Some ''oops'', None), (True, None, None)],
      from_func ''step2'' [(True, None, Some (2::nat))]]))
   = [(False, Some ''oops'', None), (True, Some ''all done'', Some 2)]"
  by (simp add: run_def CommandSeq_init_def add_def)

text \<open>
  C2 (amended). In an execution in which every step completes exactly once, let \<open>k\<close> be the number
  of leading steps that report success. The steps that ran are the first \<open>k + 1\<close> (all of
  them when none fails), the later ones are still pending, and the success flag given to
  the terminal callback is the conjunction of the success flags of the steps that ran. If
  a step fails, step \<open>k\<close> is the first to do so and the terminal callback receives its
  message and data unchanged; otherwise it receives \<open>True\<close>, the constructor's message and
  the data of the last step (\<open>None\<close> when there is no step).
\<close>

theorem CommandSeq_short_circuit:
  assumes "list_all once es"
  shows "(let s' = run (foldl add_entry (CommandSeq_init m) es);
              k = length (takeWhile succeeded es)
          in map fst (terminal s') = [list_all succeeded (started s')] \<and>
             started s' = take (Suc k) es \<and>
             calls s' = drop (Suc k) es \<and>
             (if k < length es
              then \<not> succeeded (es ! k) \<and> terminal s' = [outcome (es ! k)]
              else terminal s' =
                     [(True, m, if es = [] then None else snd (snd (outcome (last es))))]))"
proof -
  let ?k = "length (takeWhile succeeded es)"
  show ?thesis
  proof (cases "?k < length es")
    case True
    then have fails: "\<not> succeeded (es ! ?k)"
      by (rule first_failure_fails)
    have "\<not> list_all succeeded es"
      using True takeWhile_all_length[of succeeded es] by auto
    then have "\<not> list_all succeeded (take (Suc ?k) es)"
      by (simp add: first_failure_prefix)
    then show ?thesis
      using True fails run_closed[OF assms, of m]
      by (simp add: Let_def succeeded_def)
  next
    case False
    then have k: "?k = length es"
      using length_takeWhile_le[of succeeded es] by simp
    then have all: "list_all succeeded es"
      by (simp add: takeWhile_all_length)
    have "snd (snd (last ((True, None, None) # map outcome es))) =
          (if es = [] then None else snd (snd (outcome (last es))))"
      by (simp add: last_map)
    then show ?thesis
      using False k all run_closed[OF assms, of m]
      by (simp add: Let_def)
  qed
qed

theorem CommandSeq_short_circuit_witness:
  "list_all once [from_func ''step1'' [(True, None, Some (1::nat))],
                  from_func ''step2'' [(False, Some ''oops'', None)],
                  from_msg ''step3'' [(True, None, Some 3)]] \<and>
   terminal (run (foldl add_entry (CommandSeq_init (Some ''all done''))
     [from_func ''step1'' [(True, None, Some (1::nat))],
      from_func ''step2'' [(False, Some ''oops'', None)],
      from_msg ''step3'' [(True, None, Some 3)]])) = [(False, Some ''oops'', None)] \<and>
   started (run (foldl add_entry (CommandSeq_init (Some ''all done''))
     [from_func ''step1'' [(True, None, Some (1::nat))],
      from_func ''step2'' [(False, Some ''oops'', None)],
      from_msg ''step3'' [(True, None, Some 3)]])) =
     [from_func ''step1'' [(True, None, Some 1)], from_func ''step2'' [(False, Some ''oops'', None)]]"
  using CommandSeq_short_circuit
    [of "[from_func ''step1'' [(True, None, Some (1::nat))],
          from_func ''step2'' [(False, Some ''oops'', None)],
          from_msg ''step3'' [(True, None, Some 3)]]" "Some ''all done''"]
  by (simp add: once_def succeeded_def outcome_def Let_def del: on_done.simps)

subsection \<open>Properties of the motion sensor\<close>

lemma bytes_zeros: "bytes (replicate n 0) = Inr (replicate n 0)"
  by (simp add: bytes_def list_all_iff)

lemma index_in_range: "i < length xs \<Longrightarrow> index xs i = Inr (xs ! i)"
  by (simp add: index_def)

lemma py_int_of_int_div:
  "0 \<le> t \<Longrightarrow> py_int (of_int t / numeral d) = t div numeral d"
  by (simp add: py_int_def floor_divide_of_int_eq[of t "numeral d", simplified])

text \<open>
  Writing the three flags with \<open>_change_flags\<close> and reading back, with \<open>handle_ext_flags\<close>, a
  reply whose D6 is the byte written in D3 returns \<open>led_on\<close> as it was given and
  \<open>night_only\<close> and \<open>on_only\<close> negated: the write inverts the two, the read does not.
\<close>

lemma change_flags_then_handle_ext_flags:
  "(case change_flags [''led_on'' \<mapsto> Some l, ''night_only'' \<mapsto> Some n, ''on_only'' \<mapsto> Some q] dev of
      Inl e \<Rightarrow> None
    | Inr dev1 \<Rightarrow>
        (case handle_ext_flags
                \<lparr>cmd1 = 0x2e, cmd2 = 0x00,
                 data = replicate 5 0 @ [data (fst (last (sent dev1))) ! 2] @ replicate 8 0\<rparr>
                now dev1 of
           Inl e \<Rightarrow> None
         | Inr dev2 \<Rightarrow> Some (led_on dev2, night_only dev2, on_only dev2)))
   = Some (l, \<not> n, \<not> q)"
  by (cases l; cases n; cases q)
     (simp_all add: change_flags_def bit_set_def bytes_def list_all_iff nth_append send_def
        handle_ext_flags_def index_def Let_def bit_get_def emit_def call_on_done_def
        battery_voltage_time_set_def set_meta_def get_meta_def split: option.splits)

text \<open>
  C3. The round trip at \<open>led_on = 1\<close>, \<open>night_only = 0\<close>, \<open>on_only = 0\<close>: \<open>_change_flags\<close>
  writes D3 = 0b1110, and \<open>handle_ext_flags\<close> on a reply with that byte in D6 stores
  \<open>led_on = 1\<close>, \<open>night_only = 1\<close>, \<open>on_only = 1\<close>, which is not the triple written.
\<close>

theorem Motion_flags_round_trip_inverts:
  "(case change_flags [''led_on'' \<mapsto> Some True, ''night_only'' \<mapsto> Some False,
                       ''on_only'' \<mapsto> Some False] (Motion_init None Map.empty) of
      Inl e \<Rightarrow> None
    | Inr dev1 \<Rightarrow>
        (case handle_ext_flags
                \<lparr>cmd1 = 0x2e, cmd2 = 0x00,
                 data = replicate 5 0 @ [data (fst (last (sent dev1))) ! 2] @ replicate 8 0\<rparr>
                0 dev1 of
           Inl e \<Rightarrow> None
         | Inr dev2 \<Rightarrow> Some (data (fst (last (sent dev1))) ! 2,
                              led_on dev2, night_only dev2, on_only dev2)))
   = Some (0b1110, True, True, True)"
  by (simp add: change_flags_def bit_set_def bytes_def list_all_iff nth_append Motion_init_def
        send_def handle_ext_flags_def index_def Let_def bit_get_def emit_def call_on_done_def
        battery_voltage_time_set_def set_meta_def get_meta_def model_is_def)

text \<open>
  C7. On a reply with its 14 data bytes, \<open>handle_ext_flags\<close> returns normally; the voltage
  is D12 / 10 on a 2842 and \<open>round(D12 / 72, 2)\<close> otherwise; the time of the reading
  becomes \<open>now\<close>; the signal emitted is \<open>signal_low_battery(volts \<le> threshold)\<close>, where the
  threshold is the value stored in the metadata if there is one and else 7.0 on a 2842 and
  1.85 otherwise. On a 2844 without a stored threshold, D12 = 133 gives 1.85 volts and
  \<open>signal_low_battery(True)\<close>.
\<close>

theorem handle_ext_flags_battery:
  assumes "length (data m) = 14"
  shows "(let raw = data m ! 11;
              volts = (if model_is ''2842'' dev then of_int raw / 10
                       else py_round2 (of_int raw / 72));
              threshold = (case meta_value dev ''Motion'' ''battery_low_voltage'' of
                             Some v \<Rightarrow> v
                           | None \<Rightarrow> if model_is ''2842'' dev then 7.0 else 1.85)
          in case handle_ext_flags m now dev of
               Inl e \<Rightarrow> False
             | Inr dev' \<Rightarrow>
                 battery_voltage_time dev' = now \<and>
                 battery_low_voltage dev' = threshold \<and>
                 emitted dev' = emitted dev @ [signal_low_battery (volts \<le> threshold)] \<and>
                 (model_is ''2844'' dev \<and> raw = 133 \<and>
                  meta_value dev ''Motion'' ''battery_low_voltage'' = None
                  \<longrightarrow> volts = 1.85 \<and> emitted dev' = emitted dev @ [signal_low_battery True]))"
proof -
  have i5: "index (data m) 5 = Inr (data m ! 5)" and i11: "index (data m) 11 = Inr (data m ! 11)"
    using assms by (simp_all add: index_in_range)
  have r: "py_round2 (133 / 72) = 1.85"
    by (simp add: py_round2_def py_round_def Let_def)
  show ?thesis
    using r
    by (auto simp: handle_ext_flags_def i5 i11 Let_def model_is_def battery_voltage_time_def
          battery_voltage_time_set_def battery_low_voltage_def meta_value_def get_meta_def
          set_meta_def emit_def call_on_done_def map_add_def
        split: option.splits)
qed

theorem handle_ext_flags_battery_witness:
  "length (data \<lparr>cmd1 = 0x2e, cmd2 = 0x00, data = [0, 0, 0, 0, 0, 14, 0, 0, 0, 0, 0, 133, 0, 0]\<rparr>) = 14
   \<and> (case handle_ext_flags
              \<lparr>cmd1 = 0x2e, cmd2 = 0x00, data = [0, 0, 0, 0, 0, 14, 0, 0, 0, 0, 0, 133, 0, 0]\<rparr>
              1000 (Motion_init (Some ''2844-222'') Map.empty) of
         Inl e \<Rightarrow> False
       | Inr dev' \<Rightarrow> battery_voltage_time dev' = 1000 \<and> emitted dev' = [signal_low_battery True])"
  using handle_ext_flags_battery
    [of "\<lparr>cmd1 = 0x2e, cmd2 = 0x00, data = [0, 0, 0, 0, 0, 14, 0, 0, 0, 0, 0, 133, 0, 0]\<rparr>"
        "Motion_init (Some ''2844-222'') Map.empty" 1000]
  by (simp add: Let_def model_is_def split_first_def Motion_init_def meta_value_def get_meta_def
        split: sum.splits)

text \<open>
  Where the encoded timeout fits a byte, \<open>_set_timeout\<close> sends it as D3 of the frame
  (0x2e, 0x00) with D2 = 0x03: on a 2842 for a timeout up to 7709 seconds, on the other
  models always.
\<close>

lemma set_timeout_2842_fits:
  assumes "model_is ''2842'' dev" and "t \<le> 7709"
  shows "set_timeout (Some t) dev =
     Inr (send \<lparr>cmd1 = 0x2e, cmd2 = 0x00,
                data = [0x00, 0x03, (max 30 t) div 30 - 1] @ replicate 11 0x00\<rparr>
            (StandardCmd ''Motion timeout updated.'') dev)"
proof (cases "t < 30")
  case True
  then show ?thesis
    using assms(1) by (simp add: set_timeout_def bytes_def list_all_iff py_int_def)
next
  case False
  then have "1 \<le> t div 30" and "t div 30 \<le> 256"
    using assms(2) by simp_all
  then show ?thesis
    using assms False
    by (simp add: set_timeout_def bytes_def list_all_iff py_int_of_int_div)
qed

lemma set_timeout_other:
  assumes "\<not> model_is ''2842'' dev"
  shows "set_timeout (Some t) dev =
     Inr (send \<lparr>cmd1 = 0x2e, cmd2 = 0x00,
                data = [0x00, 0x03, (min 2400 (max 10 t)) div 10] @ replicate 11 0x00\<rparr>
            (StandardCmd ''Motion timeout updated.'') dev)"
proof -
  consider "t < 10" | "10 \<le> t" "t \<le> 2400" | "2400 < t" by linarith
  then show ?thesis
  proof cases
    case 1
    then show ?thesis
      using assms by (simp add: set_timeout_def bytes_def list_all_iff py_int_def)
  next
    case 2
    then have "0 \<le> t div 10" and "t div 10 < 256" by simp_all
    then show ?thesis
      using assms 2
      by (simp add: set_timeout_def bytes_def list_all_iff py_int_of_int_div)
  next
    case 3
    then show ?thesis
      using assms by (simp add: set_timeout_def bytes_def list_all_iff py_int_def)
  qed
qed

text \<open>
  C8. On a 2842 the timeout 14400, the upper bound of the clamp, encodes to
  14400 / 30 - 1 = 479, which is no byte: \<open>bytes\<close> raises \<open>ValueError\<close> and no frame is sent.
\<close>

theorem set_timeout_2842_max_raises:
  "set_timeout (Some 14400) (Motion_init (Some ''2842-222'') Map.empty) = Inl ValueError"
  by (simp add: set_timeout_def Motion_init_def model_is_def split_first_def py_int_def
        bytes_def Let_def)

text \<open>
  C9. With one reading \<open>now\<close> of the clock, \<open>auto_check_battery\<close> sends the request for the
  extended flags exactly when the model is a 2842 or a 2844, the last voltage reading is
  at least four days old and the last request at least 300 seconds old; it then sets the
  time of the last request to \<open>now\<close>, and otherwise changes nothing. A last request 299
  seconds old sends nothing; one 301 seconds old sends the request when the other two
  conditions hold.
\<close>

theorem auto_check_battery_policy:
  "auto_check_battery now now now dev =
     (if (model_is ''2842'' dev \<or> model_is ''2844'' dev)
         \<and> now - battery_voltage_time dev \<ge> 4 * 24 * 3600
         \<and> now - battery_request_time dev \<ge> 300
      then Inr (send \<lparr>cmd1 = 0x2e, cmd2 = 0x00, data = replicate 14 0x00\<rparr>
                  (ExtendedCmdResponse ''handle_ext_flags'')
                  (dev\<lparr>battery_request_time := now\<rparr>))
      else Inr dev)
   \<and> auto_check_battery now now now (dev\<lparr>battery_request_time := now - 299\<rparr>)
       = Inr (dev\<lparr>battery_request_time := now - 299\<rparr>)
   \<and> ((model_is ''2842'' dev \<or> model_is ''2844'' dev)
        \<and> now - battery_voltage_time dev \<ge> 4 * 24 * 3600 \<longrightarrow>
       auto_check_battery now now now (dev\<lparr>battery_request_time := now - 301\<rparr>)
         = Inr (send \<lparr>cmd1 = 0x2e, cmd2 = 0x00, data = replicate 14 0x00\<rparr>
                  (ExtendedCmdResponse ''handle_ext_flags'')
                  (dev\<lparr>battery_request_time := now\<rparr>)))"
  by (auto simp: auto_check_battery_def get_ext_flags_def bytes_zeros BATTERY_TIME_def Let_def
        model_is_def battery_voltage_time_def get_meta_def send_def)

theorem auto_check_battery_policy_witness:
  "(model_is ''2842'' (Motion_init (Some ''2842-222'') Map.empty)
    \<or> model_is ''2844'' (Motion_init (Some ''2842-222'') Map.empty))
   \<and> 1000000 - battery_voltage_time (Motion_init (Some ''2842-222'') Map.empty) \<ge> 4 * 24 * 3600
   \<and> auto_check_battery 1000000 1000000 1000000
        ((Motion_init (Some ''2842-222'') Map.empty)\<lparr>battery_request_time := 1000000 - 301\<rparr>)
       = Inr (send \<lparr>cmd1 = 0x2e, cmd2 = 0x00, data = replicate 14 0x00\<rparr>
                (ExtendedCmdResponse ''handle_ext_flags'')
                ((Motion_init (Some ''2842-222'') Map.empty)\<lparr>battery_request_time := 1000000\<rparr>))"
  using auto_check_battery_policy [of 1000000 "Motion_init (Some ''2842-222'') Map.empty"]
  by (simp add: model_is_def split_first_def Motion_init_def battery_voltage_time_def
        get_meta_def)

subsection \<open>Properties of the metadata writes\<close>

text \<open>
  The setter of \<open>Thermostat.units\<close> passes the one-key mapping to \<open>set_meta\<close> without
  reading the namespace first: a key \<open>program\<close> stored beside \<open>units\<close> is gone after it.
\<close>

theorem units_set_drops_other_keys:
  "meta_value (Thermostat_init None [''thermostat'' \<mapsto> [''units'' \<mapsto> 0, ''program'' \<mapsto> 3]])
     ''thermostat'' ''program'' = Some 3
   \<and> meta_value
       (units_set 1 (Thermostat_init None [''thermostat'' \<mapsto> [''units'' \<mapsto> 0, ''program'' \<mapsto> 3]]))
       ''thermostat'' ''program'' = None"
  by (simp add: meta_value_def get_meta_def units_set_def set_meta_def Thermostat_init_def
        FARENHEIT_def CELSIUS_def)

text \<open>
  C6 (amended). The setters of \<open>Motion.battery_voltage_time\<close> and
  \<open>Motion.battery_low_voltage\<close> read, update and write back the namespace \<open>Motion\<close>: after
  the write the key written holds the value, every other key of every namespace holds
  what it held, and every other namespace is the mapping it was (or still absent). The
  setter of \<open>Thermostat.units\<close> leaves every other namespace as it was, and replaces the
  namespace \<open>thermostat\<close> by the mapping with the one key \<open>units\<close> when the value is 0 or
  1; for another value it writes nothing.
\<close>

theorem metadata_writes_frame:
  "meta_value (battery_voltage_time_set val dev) ns k =
     (if ns = ''Motion'' \<and> k = ''battery_voltage_time'' then Some val else meta_value dev ns k)
   \<and> meta_value (battery_low_voltage_set val dev) ns k =
     (if ns = ''Motion'' \<and> k = ''battery_low_voltage'' then Some val else meta_value dev ns k)
   \<and> (ns \<noteq> ''Motion'' \<longrightarrow>
        get_meta (battery_voltage_time_set val dev) ns = get_meta dev ns
        \<and> get_meta (battery_low_voltage_set val dev) ns = get_meta dev ns)
   \<and> get_meta (units_set v th) ns =
     (if ns = ''thermostat'' \<and> (v = FARENHEIT \<or> v = CELSIUS) then Some [''units'' \<mapsto> v]
      else get_meta th ns)"
  by (auto simp: meta_value_def get_meta_def set_meta_def battery_voltage_time_set_def
        battery_low_voltage_set_def units_set_def Let_def map_add_def
      split: option.splits)

theorem metadata_writes_frame_witness:
  "''thermostat'' \<noteq> ''Motion''
   \<and> get_meta (battery_voltage_time_set 5
        (Motion_init None [''Motion'' \<mapsto> [''battery_low_voltage'' \<mapsto> 2],
                           ''thermostat'' \<mapsto> [''units'' \<mapsto> 1]])) ''thermostat''
      = Some [''units'' \<mapsto> 1]
   \<and> meta_value (battery_voltage_time_set 5
        (Motion_init None [''Motion'' \<mapsto> [''battery_low_voltage'' \<mapsto> 2],
                           ''thermostat'' \<mapsto> [''units'' \<mapsto> 1]])) ''Motion'' ''battery_low_voltage''
      = Some 2
   \<and> meta_value (battery_voltage_time_set 5
        (Motion_init None [''Motion'' \<mapsto> [''battery_low_voltage'' \<mapsto> 2],
                           ''thermostat'' \<mapsto> [''units'' \<mapsto> 1]])) ''Motion'' ''battery_voltage_time''
      = Some 5"
  using metadata_writes_frame
    [of 5 "Motion_init None [''Motion'' \<mapsto> [''battery_low_voltage'' \<mapsto> 2],
                             ''thermostat'' \<mapsto> [''units'' \<mapsto> 1]]" "''thermostat''"
        "''battery_low_voltage''"]
    metadata_writes_frame
    [of 5 "Motion_init None [''Motion'' \<mapsto> [''battery_low_voltage'' \<mapsto> 2],
                             ''thermostat'' \<mapsto> [''units'' \<mapsto> 1]]" "''Motion''"
        "''battery_low_voltage''"]
    metadata_writes_frame
    [of 5 "Motion_init None [''Motion'' \<mapsto> [''battery_low_voltage'' \<mapsto> 2],
                             ''thermostat'' \<mapsto> [''units'' \<mapsto> 1]]" "''Motion''"
        "''battery_voltage_time''"]
  by (simp add: meta_value_def get_meta_def Motion_init_def)

subsection \<open>Properties of the thermostat\<close>

lemma units_emit [simp]: "units (emit sig th) = units th"
  by (simp add: units_def emit_def get_meta_def)

lemma units_call_on_done [simp]: "units (call_on_done r th) = units th"
  by (simp add: units_def call_on_done_def get_meta_def)

lemma emitted_emit [simp]: "emitted (emit sig th) = emitted th @ [sig]"
  by (simp add: emit_def)

lemma emitted_call_on_done [simp]: "emitted (call_on_done r th) = emitted th"
  by (simp add: call_on_done_def)

lemma units_units_set:
  "v = 0 \<or> v = 1 \<Longrightarrow> units (units_set v th) = v"
  by (auto simp: units_def units_set_def set_meta_def get_meta_def FARENHEIT_def CELSIUS_def)

lemma emitted_units_set [simp]: "emitted (units_set v th) = emitted th"
  by (simp add: units_set_def set_meta_def Let_def)

lemma and_one_cases: "(x::int) AND 1 = 0 \<or> x AND 1 = 1"
  by (simp add: and_one_eq) presburger

lemma units_process_status_flag:
  "units (process_status_flag flag th) = drop_bit 3 flag AND 1"
  using and_one_cases[of "drop_bit 3 flag"]
  by (simp add: process_status_flag_def Let_def units_units_set)

lemma emitted_process_status_flag:
  "emitted (process_status_flag flag th) = emitted th @
     [signal_status_change
        (if flag AND 1 \<noteq> 0 then ''cooling''
         else if drop_bit 1 flag AND 1 \<noteq> 0 then ''heating'' else ''off''),
      signal_hold_change (drop_bit 4 flag AND 1 \<noteq> 0),
      signal_energy_change (drop_bit 2 flag AND 1 \<noteq> 0)]"
  by (simp add: process_status_flag_def Let_def)

lemma units_set_fan_mode_state [simp]: "units (set_fan_mode_state v th) = units th"
  by (simp add: set_fan_mode_state_def split: option.splits)

lemma emitted_set_fan_mode_state:
  "emitted (set_fan_mode_state v th) =
     emitted th @ (case Fan_of v of None \<Rightarrow> [] | Some f \<Rightarrow> [signal_fan_mode_change f])"
  by (simp add: set_fan_mode_state_def split: option.splits)

lemma handle_status_units:
  "units (handle_status m g th) = drop_bit 3 (from_bytes (slice (data m) 10 11)) AND 1"
  by (simp add: handle_status_def Let_def units_process_status_flag split: option.splits)

lemma handle_status_emitted:
  "emitted (handle_status m g th) = emitted th @
     [signal_status_change
        (if from_bytes (slice (data m) 10 11) AND 1 \<noteq> 0 then ''cooling''
         else if drop_bit 1 (from_bytes (slice (data m) 10 11)) AND 1 \<noteq> 0 then ''heating''
         else ''off''),
      signal_hold_change (drop_bit 4 (from_bytes (slice (data m) 10 11)) AND 1 \<noteq> 0),
      signal_energy_change (drop_bit 2 (from_bytes (slice (data m) 10 11)) AND 1 \<noteq> 0)] @
     (case Fan_of (from_bytes (slice (data m) 5 6) AND 1) of
        None \<Rightarrow> [] | Some f \<Rightarrow> [signal_fan_mode_change f]) @
     (case Mode_of (drop_bit 4 (from_bytes (slice (data m) 5 6))) of
        None \<Rightarrow> [] | Some md \<Rightarrow> [signal_mode_change md]) @
     [signal_cool_sp_change
        (if drop_bit 3 (from_bytes (slice (data m) 10 11)) AND 1 = FARENHEIT
         then (of_int (from_bytes (slice (data m) 6 7)) - 32) * 5 / 9
         else of_int (from_bytes (slice (data m) 6 7))),
      signal_ambient_humid_change (from_bytes (slice (data m) 7 8)),
      signal_ambient_temp_change (of_int (from_bytes (slice (data m) 8 10)) / 10),
      signal_heat_sp_change
        (if drop_bit 3 (from_bytes (slice (data m) 10 11)) AND 1 = FARENHEIT
         then (of_int (from_bytes (slice (data m) 11 12)) - 32) * 5 / 9
         else of_int (from_bytes (slice (data m) 11 12)))]"
  by (simp add: handle_status_def Let_def units_process_status_flag emitted_process_status_flag
        emitted_set_fan_mode_state split: option.splits)

text \<open>
  The status reply of the spec's example has D11 = 0b00001001. Its bit 3 is set, so
  \<open>process_status_flag\<close> stores the units Celsius and D7 = 72 and D12 = 68 are emitted as
  they are, not as 22.22 and 20.0.
\<close>

theorem handle_status_example_celsius_bit:
  "emitted (handle_status
      \<lparr>cmd1 = 0x2e, cmd2 = 0x02,
       data = [0, 0, 0, 0, 0, 0x31, 72, 40, 0x00, 0xDC, 0b00001001, 68, 0, 0]\<rparr>
      False (Thermostat_init None Map.empty))
   = [signal_status_change ''cooling'', signal_hold_change False, signal_energy_change False,
      signal_fan_mode_change Fan_on, signal_mode_change Mode_cool,
      signal_cool_sp_change 72, signal_ambient_humid_change 40,
      signal_ambient_temp_change 22.0, signal_heat_sp_change 68]
   \<and> signal_cool_sp_change (200 / 9) \<notin> set (emitted (handle_status
      \<lparr>cmd1 = 0x2e, cmd2 = 0x02,
       data = [0, 0, 0, 0, 0, 0x31, 72, 40, 0x00, 0xDC, 0b00001001, 68, 0, 0]\<rparr>
      False (Thermostat_init None Map.empty)))
   \<and> signal_heat_sp_change 20.0 \<notin> set (emitted (handle_status
      \<lparr>cmd1 = 0x2e, cmd2 = 0x02,
       data = [0, 0, 0, 0, 0, 0x31, 72, 40, 0x00, 0xDC, 0b00001001, 68, 0, 0]\<rparr>
      False (Thermostat_init None Map.empty)))"
  by (simp add: handle_status_emitted slice_def from_bytes_def Fan_of_def Mode_of_def
        FARENHEIT_def Thermostat_init_def)

text \<open>
  C5 (amended). Whatever the other data bytes, the state of the thermostat and the units
  stored before, the reply with D6 = 0x31, D7 = 72, D8 = 40, D9-D10 = 0x00DC, D12 = 68 and
  D11 = 0b00000001 (units bit clear: Fahrenheit) emits, in this order, \<open>status_change("cooling")\<close>,
  \<open>hold_change(False)\<close>, \<open>energy_change(False)\<close>, \<open>fan_mode_change(on)\<close>, \<open>mode_change(cool)\<close>,
  \<open>cool_sp_change(200/9)\<close>, \<open>ambient_humid_change(40)\<close>, \<open>ambient_temp_change(22.0)\<close> and
  \<open>heat_sp_change(20.0)\<close>: D11 is processed first and D7 and D12 are converted as
  \<open>(val - 32) * 5 / 9\<close>. With D11 = 0b00001001 (units bit set: Celsius) the signals are the
  same but for \<open>cool_sp_change(72)\<close> and \<open>heat_sp_change(68)\<close>, which are not converted.
\<close>

theorem handle_status_example:
  "emitted (handle_status
      \<lparr>cmd1 = 0x2e, cmd2 = 0x02,
       data = [d1, d2, d3, d4, d5, 0x31, 72, 40, 0x00, 0xDC, 0b00000001, 68, d13, d14]\<rparr>
      on_done_given th)
   = emitted th @
     [signal_status_change ''cooling'', signal_hold_change False, signal_energy_change False,
      signal_fan_mode_change Fan_on, signal_mode_change Mode_cool,
      signal_cool_sp_change (200 / 9), signal_ambient_humid_change 40,
      signal_ambient_temp_change 22.0, signal_heat_sp_change 20.0]
   \<and> emitted (handle_status
      \<lparr>cmd1 = 0x2e, cmd2 = 0x02,
       data = [d1, d2, d3, d4, d5, 0x31, 72, 40, 0x00, 0xDC, 0b00001001, 68, d13, d14]\<rparr>
      on_done_given th)
   = emitted th @
     [signal_status_change ''cooling'', signal_hold_change False, signal_energy_change False,
      signal_fan_mode_change Fan_on, signal_mode_change Mode_cool,
      signal_cool_sp_change 72, signal_ambient_humid_change 40,
      signal_ambient_temp_change 22.0, signal_heat_sp_change 68]"
  by (simp add: handle_status_emitted slice_def from_bytes_def Fan_of_def Mode_of_def
        FARENHEIT_def)

subsection \<open>Properties of the doubles\<close>

text \<open>
  The exponent is the binary exponent of every number that is not subnormal, and the
  rounding moves a number by at most half a unit of its last place.
\<close>

lemma ilog2_bounds: "1 \<le> n \<Longrightarrow> 2 ^ ilog2 n \<le> n \<and> n < 2 ^ Suc (ilog2 n)"
proof (induction n rule: ilog2.induct)
  case (1 n)
  show ?case
  proof (cases "n < 2")
    case True
    then have "n = 1" using "1.prems" by simp
    then show ?thesis by (simp add: ilog2.simps)
  next
    case False
    then have "1 \<le> n div 2" by simp
    with "1.IH" False have ih: "2 ^ ilog2 (n div 2) \<le> n div 2" "n div 2 < 2 ^ Suc (ilog2 (n div 2))"
      by simp_all
    have e: "ilog2 n = Suc (ilog2 (n div 2))" using False by (simp add: ilog2.simps[of n])
    from ih(1) have "2 * 2 ^ ilog2 (n div 2) \<le> n" by simp
    moreover from ih(2) have "n < 2 * 2 ^ Suc (ilog2 (n div 2))" by simp
    ultimately show ?thesis by (simp add: e)
  qed
qed

lemma exponent_bounds:
  assumes "2 powi (- 1022) \<le> \<bar>x\<bar>"
  shows "2 powi exponent x \<le> \<bar>x\<bar> \<and> \<bar>x\<bar> < 2 powi (exponent x + 1)"
proof (cases "1 \<le> \<bar>x\<bar>")
  case True
  let ?n = "\<lfloor>\<bar>x\<bar>\<rfloor>"
  have n: "1 \<le> ?n" using True by simp
  have e: "exponent x = int (ilog2 ?n)" using True by (simp add: exponent_def)
  from ilog2_bounds[OF n] have b: "2 ^ ilog2 ?n \<le> ?n" "?n < 2 ^ Suc (ilog2 ?n)" by simp_all
  have r1: "(2::real) ^ ilog2 ?n = of_int (2 ^ ilog2 ?n)"
    and r2: "(2::real) ^ Suc (ilog2 ?n) = of_int (2 ^ Suc (ilog2 ?n))" by simp_all
  from b(1) have "real_of_int (2 ^ ilog2 ?n) \<le> real_of_int ?n"
    by (rule of_int_le_iff[THEN iffD2])
  with r1 of_int_floor_le[of "\<bar>x\<bar>"] have lo: "2 ^ ilog2 ?n \<le> \<bar>x\<bar>" by linarith
  have "?n + 1 \<le> 2 ^ Suc (ilog2 ?n)" using b(2) by simp
  then have "real_of_int (?n + 1) \<le> real_of_int (2 ^ Suc (ilog2 ?n))"
    by (rule of_int_le_iff[THEN iffD2])
  with r2 floor_correct[of "\<bar>x\<bar>"] have hi: "\<bar>x\<bar> < 2 ^ Suc (ilog2 ?n)" by linarith
  have "exponent x + 1 = int (Suc (ilog2 ?n))" using e by simp
  then show ?thesis using lo hi e by (simp only: power_int_of_nat)
next
  case False
  then have a1: "\<bar>x\<bar> < 1" by simp
  have a0: "0 < \<bar>x\<bar>"
  proof -
    have "(0::real) < 2 powi (- 1022)" by simp
    then show ?thesis using assms by linarith
  qed
  let ?n = "\<lceil>1 / \<bar>x\<bar>\<rceil>"
  let ?k = "ilog2 (?n - 1)"
  have inv: "1 < 1 / \<bar>x\<bar>" using a0 a1 by simp
  then have n: "1 \<le> ?n - 1" by linarith
  from ilog2_bounds[OF n] have b: "2 ^ ?k \<le> ?n - 1" "?n - 1 < 2 ^ Suc ?k" by simp_all
  have r3: "(2::real) ^ ?k = of_int (2 ^ ?k)"
    and r4: "(2::real) ^ Suc ?k = of_int (2 ^ Suc ?k)" by simp_all
  from b(1) have "real_of_int (2 ^ ?k) \<le> real_of_int (?n - 1)"
    by (rule of_int_le_iff[THEN iffD2])
  moreover have "real_of_int (?n - 1) < 1 / \<bar>x\<bar>" by linarith
  ultimately have "2 ^ ?k < 1 / \<bar>x\<bar>" using r3 by linarith
  then have hi: "\<bar>x\<bar> < 1 / 2 ^ ?k" using a0 by (simp add: field_simps)
  have "?n \<le> 2 ^ Suc ?k" using b(2) by simp
  then have "real_of_int ?n \<le> real_of_int (2 ^ Suc ?k)"
    by (rule of_int_le_iff[THEN iffD2])
  moreover have "1 / \<bar>x\<bar> \<le> real_of_int ?n" by linarith
  ultimately have "1 / \<bar>x\<bar> \<le> 2 ^ Suc ?k" using r4 by linarith
  then have lo: "1 / 2 ^ Suc ?k \<le> \<bar>x\<bar>" using a0 by (simp add: field_simps)
  have p1: "(2::real) powi (- 1 - int ?k) = 1 / 2 ^ Suc ?k"
    by (simp add: power_int_def nat_add_distrib field_simps)
  have p2: "(2::real) powi (- 1 - int ?k + 1) = 1 / 2 ^ ?k"
    by (simp add: power_int_def field_simps)
  have ge: "- 1022 \<le> - 1 - int ?k"
  proof (rule ccontr)
    assume "\<not> - 1022 \<le> - 1 - int ?k"
    then have "1022 \<le> ?k" by simp
    then have "(2::real) ^ 1022 \<le> 2 ^ ?k" by (intro power_increasing) simp_all
    then have "1 / 2 ^ ?k \<le> 1 / (2::real) ^ 1022" by (simp add: field_simps)
    moreover have "(2::real) powi (- 1022) = 1 / 2 ^ 1022" by (simp add: power_int_def field_simps)
    ultimately show False using hi assms by linarith
  qed
  have e: "exponent x = - 1 - int ?k" using False ge by (simp add: exponent_def Let_def)
  show ?thesis unfolding e p1 p2 using lo hi by simp
qed

lemma py_round_error: "\<bar>of_int (py_round z) - z\<bar> \<le> 1 / 2"
  by (auto simp: py_round_def Let_def)

lemma round_to_double_error:
  "\<bar>round_to_double x - x\<bar> \<le> 2 powi (exponent x - 53)"
proof (cases "x = 0")
  case True
  then show ?thesis by (simp add: round_to_double_def)
next
  case False
  let ?q = "(2::real) powi (exponent x - 52)"
  have q: "0 < ?q" by simp
  have s: "(2::real) powi (52 - exponent x) = 1 / ?q"
    by (simp add: power_int_diff field_simps)
  have "round_to_double x - x = (of_int (py_round (x / ?q)) - x / ?q) * ?q"
    using False q by (simp add: round_to_double_def s field_simps)
  then have "\<bar>round_to_double x - x\<bar> = \<bar>of_int (py_round (x / ?q)) - x / ?q\<bar> * ?q"
    using q by (simp add: abs_mult)
  also have "\<dots> \<le> 1 / 2 * ?q"
    using py_round_error[of "x / ?q"] q by (intro mult_right_mono) simp_all
  also have "\<dots> = 2 powi (exponent x - 53)"
    by (simp add: power_int_diff)
  finally show ?thesis .
qed

lemma ilog2_le: "n < 2 ^ Suc k \<Longrightarrow> ilog2 n \<le> k"
proof (induction k arbitrary: n)
  case 0
  then show ?case by (simp add: ilog2.simps)
next
  case (Suc k)
  show ?case
  proof (cases "n < 2")
    case True
    then show ?thesis by (simp add: ilog2.simps)
  next
    case False
    have "n div 2 < 2 ^ Suc k" using Suc.prems by simp
    then have "ilog2 (n div 2) \<le> k" by (rule Suc.IH)
    then show ?thesis using False by (simp add: ilog2.simps[of n])
  qed
qed

lemma exponent_le: "\<bar>x\<bar> < 2 ^ Suc k \<Longrightarrow> exponent x \<le> int k"
proof (cases "1 \<le> \<bar>x\<bar>")
  case True
  assume "\<bar>x\<bar> < 2 ^ Suc k"
  then have "\<lfloor>\<bar>x\<bar>\<rfloor> < 2 ^ Suc k"
    by (simp add: floor_less_iff)
  then have "ilog2 \<lfloor>\<bar>x\<bar>\<rfloor> \<le> k" by (rule ilog2_le)
  then show ?thesis using True by (simp add: exponent_def)
next
  case False
  then show ?thesis by (simp add: exponent_def Let_def)
qed

lemma py_round_nonneg: "0 \<le> z \<Longrightarrow> 0 \<le> py_round z"
  by (auto simp: py_round_def Let_def)

lemma py_round_le: "z \<le> of_int k \<Longrightarrow> py_round z \<le> k"
proof -
  assume a: "z \<le> of_int k"
  then have f: "\<lfloor>z\<rfloor> \<le> k" by (simp add: floor_le_iff)
  show ?thesis
  proof (cases "\<lfloor>z\<rfloor> = k")
    case True
    then have "z = of_int k" using a by (metis floor_eq_iff le_less not_less of_int_floor_le order_antisym)
    then show ?thesis by (simp add: py_round_def Let_def)
  next
    case False
    then have "\<lfloor>z\<rfloor> + 1 \<le> k" using f by simp
    then show ?thesis using f by (auto simp: py_round_def Let_def)
  qed
qed

lemma round_to_double_range:
  assumes "0 \<le> y" and "y \<le> 254"
  shows "0 \<le> round_to_double y \<and> round_to_double y \<le> 254"
proof (cases "y = 0")
  case True
  then show ?thesis by (simp add: round_to_double_def)
next
  case False
  have "\<bar>y\<bar> < 2 ^ Suc 7" using assms by simp
  then have e: "exponent y \<le> 7" using exponent_le[of y 7] by simp
  define s where "s = nat (52 - exponent y)"
  have s: "52 - exponent y = int s" and s': "exponent y - 52 = - int s"
    using e by (simp_all add: s_def)
  have p: "(2::real) powi (52 - exponent y) = 2 ^ s" "(2::real) powi (exponent y - 52) = 1 / 2 ^ s"
    unfolding s s' by (simp_all add: power_int_minus field_simps)
  have "y * 2 ^ s \<le> 254 * 2 ^ s" using assms(2) by simp
  also have "\<dots> = of_int (254 * 2 ^ s)" by simp
  finally have "py_round (y * 2 ^ s) \<le> 254 * 2 ^ s" by (rule py_round_le)
  then have "real_of_int (py_round (y * 2 ^ s)) \<le> real_of_int (254 * 2 ^ s)"
    by (rule of_int_le_iff[THEN iffD2])
  then have up: "real_of_int (py_round (y * 2 ^ s)) / 2 ^ s \<le> 254"
    by (simp add: field_simps)
  have "0 \<le> y * 2 ^ s" using assms(1) by simp
  then have "0 \<le> py_round (y * 2 ^ s)" by (rule py_round_nonneg)
  then have lo: "0 \<le> real_of_int (py_round (y * 2 ^ s)) / 2 ^ s" by simp
  show ?thesis using False lo up by (simp add: round_to_double_def p)
qed

lemma double_in_range:
  assumes "0 \<le> y" and "y \<le> 254"
  shows "double y = Finite (round_to_double y)"
proof -
  have "(254::real) < 2 ^ 1024" by simp
  then show ?thesis
    using round_to_double_range[OF assms] by (simp add: double_def Let_def)
qed

lemma round_to_double_consts:
  "round_to_double 2 = 2" "round_to_double 5 = 5" "round_to_double 9 = 9"
  "round_to_double 32 = 32" "round_to_double 254 = 254"
  by (simp_all add: round_to_double_def exponent_def ilog2.simps py_round_def Let_def)

lemma float_of_int_consts:
  "float_of_int 2 = Inr (Finite 2)" "float_of_int 5 = Inr (Finite 5)"
  "float_of_int 9 = Inr (Finite 9)" "float_of_int 32 = Inr (Finite 32)"
  by (simp_all add: float_of_int_def double_def round_to_double_consts Let_def)

lemma round_to_double_examples:
  "round_to_double (28147497671065599 / 140737488355328) = 200"
  "round_to_double 40 = 40"
  "round_to_double 72 = 72"
  "round_to_double 144 = 144"
  "round_to_double 200 = 200"
  "round_to_double (163 / 4) = 163 / 4"
  "round_to_double 198 = 198"
  "round_to_double (198 / 5) = 5573204538870989 / 140737488355328"
  "round_to_double (10076804166241485 / 140737488355328) = 2519201041560371 / 35184372088832"
  "round_to_double (2519201041560371 / 17592186044416) = 2519201041560371 / 17592186044416"
  by (simp_all add: round_to_double_def exponent_def ilog2.simps py_round_def Let_def)

lemma double_examples:
  "double (28147497671065599 / 140737488355328) = Finite 200"
  "double 40 = Finite 40"
  "double 72 = Finite 72"
  "double 198 = Finite 198"
  "double (198 / 5) = Finite (5573204538870989 / 140737488355328)"
  "double (10076804166241485 / 140737488355328) = Finite (2519201041560371 / 35184372088832)"
  by (simp_all add: double_def Let_def round_to_double_examples)

lemma spec_fahrenheit_example:
  "spec_fahrenheit (Finite (3127499741229511 / 140737488355328)) = Finite 72"
  "spec_fahrenheit (Finite 22) = Finite (2519201041560371 / 35184372088832)"
  by (simp_all add: spec_fahrenheit_def double_examples)

lemma spec_setpoint_byte_examples:
  "spec_setpoint_byte (Finite 72) = Inr 144"
  "spec_setpoint_byte (Finite (163 / 8)) = Inr 40"
  "spec_setpoint_byte (Finite (- 5)) = Inr 0"
  "spec_setpoint_byte (Finite 200) = Inr 254"
  "spec_setpoint_byte (Finite (2519201041560371 / 35184372088832)) = Inr 143"
  by (simp_all add: spec_setpoint_byte_def py_int_def round_to_double_examples)

subsection \<open>Properties of the setpoint commands\<close>

lemma and_then_simps [simp]:
  "and_then (Inr v) f = f v" "and_then (Inl e) f = Inl e"
  by (simp_all add: and_then_def)

lemma heat_sp_command_steps:
  "heat_sp_command temp_c th =
     and_then (if units th = FARENHEIT
               then and_then (and_then (py_mul temp_c (PyFloat (Finite 9)))
                      (\<lambda>a. py_truediv a (PyFloat (Finite 5))))
                      (\<lambda>b. py_add b (PyInt 32))
               else Inr temp_c)
       (\<lambda>temp0. and_then (clamp_encode temp0)
          (\<lambda>c. Inr (send \<lparr>cmd1 = 0x6d, cmd2 = c, data = replicate 14 0x00\<rparr>
                       (StandardCmd ''handle_heat_sp_command'') th)))"
  by (simp add: heat_sp_command_def clamp_encode_def Let_def bytes_zeros)

lemma cool_sp_command_steps:
  "cool_sp_command temp_c th =
     and_then (if units th = FARENHEIT
               then and_then (and_then (py_mul temp_c (PyInt 9))
                      (\<lambda>a. py_truediv a (PyInt 5)))
                      (\<lambda>b. py_add b (PyInt 32))
               else Inr temp_c)
       (\<lambda>temp0. and_then (clamp_encode temp0)
          (\<lambda>c. Inr (send \<lparr>cmd1 = 0x6c, cmd2 = c, data = replicate 14 0x00\<rparr>
                       (StandardCmd ''handle_cool_sp_command'') th)))"
  by (simp add: cool_sp_command_def clamp_encode_def Let_def bytes_zeros)

lemma clamp_encode_float: "clamp_encode (PyFloat b) = spec_setpoint_byte b"
proof (cases b)
  case (Finite x)
  consider "x < 0" | "127 < x" | "0 \<le> x" "x \<le> 127" by linarith
  then show ?thesis
  proof cases
    case 1
    then show ?thesis
      using Finite by (simp add: clamp_encode_def spec_setpoint_byte_def py_lt_def py_gt_def)
  next
    case 2
    then show ?thesis
      using Finite by (simp add: clamp_encode_def spec_setpoint_byte_def py_lt_def py_gt_def)
  next
    case 3
    then have "double (x * 2) = Finite (round_to_double (x * 2))"
      by (intro double_in_range) simp_all
    then show ?thesis
      using Finite 3
      by (simp add: clamp_encode_def spec_setpoint_byte_def py_lt_def py_gt_def
            float_of_int_consts)
  qed
qed (simp_all add: clamp_encode_def spec_setpoint_byte_def py_lt_def py_gt_def float_of_int_consts)

lemma clamp_encode_int: "clamp_encode (PyInt n) = Inr (2 * min 127 (max 0 n))"
  by (simp add: clamp_encode_def py_lt_def py_gt_def min_def max_def)

lemma fahrenheit_float:
  "and_then (and_then (py_mul (PyFloat a) (PyFloat (Finite 9)))
      (\<lambda>a. py_truediv a (PyFloat (Finite 5)))) (\<lambda>b. py_add b (PyInt 32))
   = Inr (PyFloat (spec_fahrenheit a))"
  "and_then (and_then (py_mul (PyFloat a) (PyInt 9))
      (\<lambda>a. py_truediv a (PyInt 5))) (\<lambda>b. py_add b (PyInt 32))
   = Inr (PyFloat (spec_fahrenheit a))"
  by (simp_all add: spec_fahrenheit_def float_of_int_consts)

lemma heat_sp_command_float:
  "heat_sp_command (PyFloat a) th =
     and_then (spec_setpoint_byte (if units th = FARENHEIT then spec_fahrenheit a else a))
       (\<lambda>c. Inr (send \<lparr>cmd1 = 0x6d, cmd2 = c, data = replicate 14 0x00\<rparr>
                    (StandardCmd ''handle_heat_sp_command'') th))"
  by (simp add: heat_sp_command_steps spec_fahrenheit_def float_of_int_consts clamp_encode_float)

lemma cool_sp_command_float:
  "cool_sp_command (PyFloat a) th =
     and_then (spec_setpoint_byte (if units th = FARENHEIT then spec_fahrenheit a else a))
       (\<lambda>c. Inr (send \<lparr>cmd1 = 0x6c, cmd2 = c, data = replicate 14 0x00\<rparr>
                    (StandardCmd ''handle_cool_sp_command'') th))"
  by (simp add: cool_sp_command_steps spec_fahrenheit_def float_of_int_consts clamp_encode_float)

lemma heat_sp_command_int:
  "heat_sp_command (PyInt n) th =
     (if units th = FARENHEIT
      then and_then (float_of_int n) (\<lambda>a. heat_sp_command (PyFloat a) th)
      else Inr (send \<lparr>cmd1 = 0x6d, cmd2 = 2 * min 127 (max 0 n), data = replicate 14 0x00\<rparr>
                  (StandardCmd ''handle_heat_sp_command'') th))"
  by (cases "float_of_int n")
     (simp_all add: heat_sp_command_steps clamp_encode_int clamp_encode_float
        float_of_int_consts spec_fahrenheit_def)

lemma cool_sp_command_int:
  "cool_sp_command (PyInt n) th =
     (if units th = FARENHEIT
      then and_then (float_of_int_quotient (n * 9) 5)
             (\<lambda>q. and_then (spec_setpoint_byte (float_add q (Finite 32)))
                (\<lambda>c. Inr (send \<lparr>cmd1 = 0x6c, cmd2 = c, data = replicate 14 0x00\<rparr>
                             (StandardCmd ''handle_cool_sp_command'') th)))
      else Inr (send \<lparr>cmd1 = 0x6c, cmd2 = 2 * min 127 (max 0 n), data = replicate 14 0x00\<rparr>
                  (StandardCmd ''handle_cool_sp_command'') th))"
  by (cases "float_of_int_quotient (n * 9) 5")
     (simp_all add: cool_sp_command_steps clamp_encode_int clamp_encode_float
        float_of_int_consts)

lemma spec_setpoint_byte_range:
  "spec_setpoint_byte a = Inr c \<Longrightarrow> 0 \<le> c \<and> c \<le> 254"
proof (cases a)
  case (Finite x)
  assume r: "spec_setpoint_byte a = Inr c"
  show ?thesis
  proof (cases "0 \<le> x \<and> x \<le> 127")
    case True
    then have "0 \<le> round_to_double (x * 2) \<and> round_to_double (x * 2) \<le> 254"
      by (intro round_to_double_range) simp_all
    then have "0 \<le> \<lfloor>round_to_double (x * 2)\<rfloor> \<and> \<lfloor>round_to_double (x * 2)\<rfloor> \<le> 254"
      by (simp add: floor_le_iff)
    then show ?thesis
      using r Finite True by (auto simp: spec_setpoint_byte_def py_int_def split: if_splits)
  next
    case False
    then show ?thesis
      using r Finite by (auto simp: spec_setpoint_byte_def split: if_splits)
  qed
qed (auto simp: spec_setpoint_byte_def)

lemma spec_setpoint_byte_error:
  "spec_setpoint_byte a = Inl e \<longleftrightarrow> a = NaN \<and> e = ValueError"
  by (cases a) (auto simp: spec_setpoint_byte_def)

lemma spec_fahrenheit_NaN: "spec_fahrenheit a = NaN \<longleftrightarrow> a = NaN"
  by (cases a) (auto simp: spec_fahrenheit_def double_def Let_def)

lemma setpoint_float_sent:
  assumes "a \<noteq> NaN"
  shows "\<exists>c. 0 \<le> c \<and> c \<le> 254 \<and>
     heat_sp_command (PyFloat a) th =
       Inr (send \<lparr>cmd1 = 0x6d, cmd2 = c, data = replicate 14 0x00\<rparr>
              (StandardCmd ''handle_heat_sp_command'') th) \<and>
     cool_sp_command (PyFloat a) th =
       Inr (send \<lparr>cmd1 = 0x6c, cmd2 = c, data = replicate 14 0x00\<rparr>
              (StandardCmd ''handle_cool_sp_command'') th)"
proof -
  let ?b = "if units th = FARENHEIT then spec_fahrenheit a else a"
  have b: "?b \<noteq> NaN" using assms by (simp add: spec_fahrenheit_NaN)
  obtain c where c: "spec_setpoint_byte ?b = Inr c"
  proof (cases "spec_setpoint_byte ?b")
    case (Inl e)
    then have "?b = NaN" by (simp only: spec_setpoint_byte_error)
    with b show ?thesis by simp
  next
    case (Inr c)
    then show ?thesis by (rule that)
  qed
  have "0 \<le> c \<and> c \<le> 254" using c by (rule spec_setpoint_byte_range)
  moreover have "heat_sp_command (PyFloat a) th =
       Inr (send \<lparr>cmd1 = 0x6d, cmd2 = c, data = replicate 14 0x00\<rparr>
              (StandardCmd ''handle_heat_sp_command'') th)"
    by (simp only: heat_sp_command_float c and_then_simps)
  moreover have "cool_sp_command (PyFloat a) th =
       Inr (send \<lparr>cmd1 = 0x6c, cmd2 = c, data = replicate 14 0x00\<rparr>
              (StandardCmd ''handle_cool_sp_command'') th)"
    by (simp only: cool_sp_command_float c and_then_simps)
  ultimately show ?thesis by blast
qed

lemma setpoint_NaN_raises:
  "heat_sp_command (PyFloat NaN) th = Inl ValueError"
  "cool_sp_command (PyFloat NaN) th = Inl ValueError"
  by (simp_all add: heat_sp_command_float cool_sp_command_float spec_fahrenheit_def
        spec_setpoint_byte_def)




lemma units_default:
  "meta_value th ''thermostat'' ''units'' = None \<Longrightarrow> units th = FARENHEIT"
  by (simp add: units_def meta_value_def Let_def split: option.splits)

text \<open>
  On a thermostat without stored units, a status reply whose D11 has the units bit set
  stores Celsius before D7 and D12 are decoded: D7 = 22 is emitted as 22, not converted.
\<close>

theorem handle_status_celsius_on_empty_metadata:
  "meta_value (Thermostat_init None Map.empty) ''thermostat'' ''units'' = None
   \<and> emitted (handle_status
        \<lparr>cmd1 = 0x2e, cmd2 = 0x02,
         data = [0, 0, 0, 0, 0, 0x31, 22, 40, 0x00, 0xDC, 0b00001000, 20, 0, 0]\<rparr>
        False (Thermostat_init None Map.empty))
     = [signal_status_change ''off'', signal_hold_change False, signal_energy_change False,
        signal_fan_mode_change Fan_on, signal_mode_change Mode_cool,
        signal_cool_sp_change 22, signal_ambient_humid_change 40,
        signal_ambient_temp_change 22.0, signal_heat_sp_change 20]
   \<and> (22 - 32) * 5 / 9 \<noteq> (22::real)"
  by (simp add: handle_status_emitted slice_def from_bytes_def Fan_of_def Mode_of_def
        FARENHEIT_def Thermostat_init_def meta_value_def get_meta_def)

text \<open>
  C10 (amended). When the namespace \<open>thermostat\<close> is absent or has no key \<open>units\<close>,
  \<open>Thermostat.units\<close> is \<open>FARENHEIT\<close>; so the setpoint commands convert their Celsius input
  to Fahrenheit before clamping, and the handlers of their acknowledgements convert
  \<open>cmd2 / 2\<close> from Fahrenheit to Celsius. \<open>handle_status\<close>, whatever units were stored
  before (here on any thermostat \<open>th'\<close>), stores the units bit of D11 of the reply first
  and emits D7 and D12 converted exactly when that bit is 0.
\<close>

theorem units_default_fahrenheit:
  "(meta_value th ''thermostat'' ''units'' = None \<longrightarrow>
      units th = FARENHEIT
      \<and> heat_sp_command (PyFloat a) th =
          and_then (spec_setpoint_byte (spec_fahrenheit a))
            (\<lambda>c. Inr (send \<lparr>cmd1 = 0x6d, cmd2 = c, data = replicate 14 0x00\<rparr>
                         (StandardCmd ''handle_heat_sp_command'') th))
      \<and> cool_sp_command (PyFloat a) th =
          and_then (spec_setpoint_byte (spec_fahrenheit a))
            (\<lambda>c. Inr (send \<lparr>cmd1 = 0x6c, cmd2 = c, data = replicate 14 0x00\<rparr>
                         (StandardCmd ''handle_cool_sp_command'') th))
      \<and> heat_sp_command (PyInt n) th =
          and_then (float_of_int n)
            (\<lambda>a. and_then (spec_setpoint_byte (spec_fahrenheit a))
               (\<lambda>c. Inr (send \<lparr>cmd1 = 0x6d, cmd2 = c, data = replicate 14 0x00\<rparr>
                            (StandardCmd ''handle_heat_sp_command'') th)))
      \<and> cool_sp_command (PyInt n) th =
          and_then (float_of_int_quotient (n * 9) 5)
            (\<lambda>q. and_then (spec_setpoint_byte (float_add q (Finite 32)))
               (\<lambda>c. Inr (send \<lparr>cmd1 = 0x6c, cmd2 = c, data = replicate 14 0x00\<rparr>
                            (StandardCmd ''handle_cool_sp_command'') th)))
      \<and> emitted (handle_heat_sp_command \<lparr>cmd1 = 0x6d, cmd2 = c, data = []\<rparr> g th) =
          emitted th @ [signal_heat_sp_change ((of_int c / 2 - 32) * 5 / 9)]
      \<and> emitted (handle_cool_sp_command \<lparr>cmd1 = 0x6c, cmd2 = c, data = []\<rparr> g th) =
          emitted th @ [signal_cool_sp_change ((of_int c / 2 - 32) * 5 / 9)])
   \<and> units (handle_status m g th') = drop_bit 3 (from_bytes (slice (data m) 10 11)) AND 1
   \<and> emitted (handle_status m g th') = emitted th' @
       [signal_status_change
          (if from_bytes (slice (data m) 10 11) AND 1 \<noteq> 0 then ''cooling''
           else if drop_bit 1 (from_bytes (slice (data m) 10 11)) AND 1 \<noteq> 0 then ''heating''
           else ''off''),
        signal_hold_change (drop_bit 4 (from_bytes (slice (data m) 10 11)) AND 1 \<noteq> 0),
        signal_energy_change (drop_bit 2 (from_bytes (slice (data m) 10 11)) AND 1 \<noteq> 0)] @
       (case Fan_of (from_bytes (slice (data m) 5 6) AND 1) of
          None \<Rightarrow> [] | Some f \<Rightarrow> [signal_fan_mode_change f]) @
       (case Mode_of (drop_bit 4 (from_bytes (slice (data m) 5 6))) of
          None \<Rightarrow> [] | Some md \<Rightarrow> [signal_mode_change md]) @
       [signal_cool_sp_change
          (if drop_bit 3 (from_bytes (slice (data m) 10 11)) AND 1 = 0
           then (of_int (from_bytes (slice (data m) 6 7)) - 32) * 5 / 9
           else of_int (from_bytes (slice (data m) 6 7))),
        signal_ambient_humid_change (from_bytes (slice (data m) 7 8)),
        signal_ambient_temp_change (of_int (from_bytes (slice (data m) 8 10)) / 10),
        signal_heat_sp_change
          (if drop_bit 3 (from_bytes (slice (data m) 10 11)) AND 1 = 0
           then (of_int (from_bytes (slice (data m) 11 12)) - 32) * 5 / 9
           else of_int (from_bytes (slice (data m) 11 12)))]"
proof (intro conjI impI)
  assume a: "meta_value th ''thermostat'' ''units'' = None"
  then show u: "units th = FARENHEIT" by (rule units_default)
  show "emitted (handle_heat_sp_command \<lparr>cmd1 = 0x6d, cmd2 = c, data = []\<rparr> g th) =
       emitted th @ [signal_heat_sp_change ((of_int c / 2 - 32) * 5 / 9)]"
    by (simp add: handle_heat_sp_command_def u Let_def)
  show "emitted (handle_cool_sp_command \<lparr>cmd1 = 0x6c, cmd2 = c, data = []\<rparr> g th) =
       emitted th @ [signal_cool_sp_change ((of_int c / 2 - 32) * 5 / 9)]"
    by (simp add: handle_cool_sp_command_def u Let_def)
  show "heat_sp_command (PyFloat a) th =
          and_then (spec_setpoint_byte (spec_fahrenheit a))
            (\<lambda>c. Inr (send \<lparr>cmd1 = 0x6d, cmd2 = c, data = replicate 14 0x00\<rparr>
                         (StandardCmd ''handle_heat_sp_command'') th))"
    by (simp add: heat_sp_command_float u)
  show "cool_sp_command (PyFloat a) th =
          and_then (spec_setpoint_byte (spec_fahrenheit a))
            (\<lambda>c. Inr (send \<lparr>cmd1 = 0x6c, cmd2 = c, data = replicate 14 0x00\<rparr>
                         (StandardCmd ''handle_cool_sp_command'') th))"
    by (simp add: cool_sp_command_float u)
  show "heat_sp_command (PyInt n) th =
          and_then (float_of_int n)
            (\<lambda>a. and_then (spec_setpoint_byte (spec_fahrenheit a))
               (\<lambda>c. Inr (send \<lparr>cmd1 = 0x6d, cmd2 = c, data = replicate 14 0x00\<rparr>
                            (StandardCmd ''handle_heat_sp_command'') th)))"
    by (simp add: heat_sp_command_int heat_sp_command_float u)
  show "cool_sp_command (PyInt n) th =
          and_then (float_of_int_quotient (n * 9) 5)
            (\<lambda>q. and_then (spec_setpoint_byte (float_add q (Finite 32)))
               (\<lambda>c. Inr (send \<lparr>cmd1 = 0x6c, cmd2 = c, data = replicate 14 0x00\<rparr>
                            (StandardCmd ''handle_cool_sp_command'') th)))"
    by (simp add: cool_sp_command_int u)
next
  show "units (handle_status m g th') = drop_bit 3 (from_bytes (slice (data m) 10 11)) AND 1"
    by (rule handle_status_units)
next
  show "emitted (handle_status m g th') = emitted th' @
       [signal_status_change
          (if from_bytes (slice (data m) 10 11) AND 1 \<noteq> 0 then ''cooling''
           else if drop_bit 1 (from_bytes (slice (data m) 10 11)) AND 1 \<noteq> 0 then ''heating''
           else ''off''),
        signal_hold_change (drop_bit 4 (from_bytes (slice (data m) 10 11)) AND 1 \<noteq> 0),
        signal_energy_change (drop_bit 2 (from_bytes (slice (data m) 10 11)) AND 1 \<noteq> 0)] @
       (case Fan_of (from_bytes (slice (data m) 5 6) AND 1) of
          None \<Rightarrow> [] | Some f \<Rightarrow> [signal_fan_mode_change f]) @
       (case Mode_of (drop_bit 4 (from_bytes (slice (data m) 5 6))) of
          None \<Rightarrow> [] | Some md \<Rightarrow> [signal_mode_change md]) @
       [signal_cool_sp_change
          (if drop_bit 3 (from_bytes (slice (data m) 10 11)) AND 1 = 0
           then (of_int (from_bytes (slice (data m) 6 7)) - 32) * 5 / 9
           else of_int (from_bytes (slice (data m) 6 7))),
        signal_ambient_humid_change (from_bytes (slice (data m) 7 8)),
        signal_ambient_temp_change (of_int (from_bytes (slice (data m) 8 10)) / 10),
        signal_heat_sp_change
          (if drop_bit 3 (from_bytes (slice (data m) 10 11)) AND 1 = 0
           then (of_int (from_bytes (slice (data m) 11 12)) - 32) * 5 / 9
           else of_int (from_bytes (slice (data m) 11 12)))]"
    using handle_status_emitted[of m g th'] by (simp add: FARENHEIT_def)
qed

theorem units_default_fahrenheit_witness:
  "meta_value (Thermostat_init None Map.empty) ''thermostat'' ''units'' = None
   \<and> units (Thermostat_init None Map.empty) = FARENHEIT
   \<and> cool_sp_command (PyFloat (Finite 22)) (Thermostat_init None Map.empty) =
       Inr (send \<lparr>cmd1 = 0x6c, cmd2 = 143, data = replicate 14 0x00\<rparr>
              (StandardCmd ''handle_cool_sp_command'') (Thermostat_init None Map.empty))"
proof -
  have a: "meta_value (Thermostat_init None Map.empty) ''thermostat'' ''units'' = None"
    by (simp add: meta_value_def get_meta_def Thermostat_init_def)
  show ?thesis
    using a units_default_fahrenheit [of "Thermostat_init None Map.empty" "Finite 22"]
    by (simp add: spec_fahrenheit_example spec_setpoint_byte_examples)
qed

end
